theory Spec2Isabelle
  imports Main "HOL-Library.Char_ord" "HOL-Library.List_Lexorder"
begin

section \<open>Python values, dictionaries and exceptions\<close>

text \<open>
  The handlers of \<^verbatim>\<open>app.py\<close> and the functions of \<^verbatim>\<open>database.py\<close> pass JSON-like
  Python values around: request bodies, dictionaries of conference fields, and the
  documents the remote service answers. A dictionary is an association list read at the
  first entry of a key. Floating-point numbers are not represented.
\<close>

datatype pyval =
    PNone
  | PBool bool
  | PInt int
  | PStr string
  | PList "pyval list"
  | PDict "(string \<times> pyval) list"

type_synonym pydict = "(string \<times> pyval) list"

datatype exn =
    KeyError string
  | TypeError
  | AttributeError
  | ValueError
  | RecursionError
  | BindError
  | OverflowError
  | IntegrityError
  | RequestException string "nat option"
  | JSONDecodeError

text \<open>\<^verbatim>\<open>d.get(k, default)\<close> and \<^verbatim>\<open>d[k]\<close>.\<close>

definition dict_get :: "pydict \<Rightarrow> string \<Rightarrow> pyval \<Rightarrow> pyval" where
  "dict_get d k dflt = (case map_of d k of None \<Rightarrow> dflt | Some v \<Rightarrow> v)"

definition dict_item :: "pydict \<Rightarrow> string \<Rightarrow> exn + pyval" where
  "dict_item d k = (case map_of d k of None \<Rightarrow> Inl (KeyError k) | Some v \<Rightarrow> Inr v)"

text \<open>\<^verbatim>\<open>d[k] = v\<close>: the value of an existing key is replaced in place, a new key is
  appended.\<close>

fun dict_set :: "pydict \<Rightarrow> string \<Rightarrow> pyval \<Rightarrow> pydict" where
  "dict_set [] k v = [(k, v)]"
| "dict_set ((k', v') # d) k v = (if k' = k then (k, v) # d else (k', v') # dict_set d k v)"

text \<open>\<^verbatim>\<open>x.get(k, default)\<close> on an arbitrary value: only a dictionary has the method.\<close>

definition py_get :: "pyval \<Rightarrow> string \<Rightarrow> pyval \<Rightarrow> exn + pyval" where
  "py_get x k dflt = (case x of PDict d \<Rightarrow> Inr (dict_get d k dflt) | _ \<Rightarrow> Inl AttributeError)"

text \<open>Truth value of a Python object, as \<^verbatim>\<open>if x:\<close> and \<^verbatim>\<open>bool(x)\<close> read it.\<close>

fun truthy :: "pyval \<Rightarrow> bool" where
  "truthy PNone = False"
| "truthy (PBool b) = b"
| "truthy (PInt i) = (i \<noteq> 0)"
| "truthy (PStr s) = (s \<noteq> [])"
| "truthy (PList xs) = (xs \<noteq> [])"
| "truthy (PDict d) = (d \<noteq> [])"

text \<open>\<^verbatim>\<open>str(n)\<close> of an integer and \<^verbatim>\<open>int(s)\<close> of a decimal text.\<close>

definition digit_char :: "nat \<Rightarrow> char" where
  "digit_char d = ''0123456789'' ! (d mod 10)"

fun str_nat :: "nat \<Rightarrow> string" where
  "str_nat n = (if n < 10 then [digit_char n] else str_nat (n div 10) @ [digit_char (n mod 10)])"

declare str_nat.simps [simp del]

definition str_int :: "int \<Rightarrow> string" where
  "str_int i = (if i < 0 then CHR ''-'' # str_nat (nat (- i)) else str_nat (nat i))"

definition digit_val :: "char \<Rightarrow> nat option" where
  "digit_val c = map_of (zip ''0123456789'' [0, 1, 2, 3, 4, 5, 6, 7, 8, 9]) c"

fun nat_of_digits :: "nat \<Rightarrow> string \<Rightarrow> nat option" where
  "nat_of_digits acc [] = Some acc"
| "nat_of_digits acc (c # cs) =
     (case digit_val c of None \<Rightarrow> None | Some d \<Rightarrow> nat_of_digits (10 * acc + d) cs)"

text \<open>\<^verbatim>\<open>int(s)\<close> on the texts \<^verbatim>\<open>str\<close> produces: an optional minus sign and at least one
  digit; any other text raises \<^verbatim>\<open>ValueError\<close> here.\<close>

definition int_of_str :: "string \<Rightarrow> exn + int" where
  "int_of_str s =
     (case s of
        [] \<Rightarrow> Inl ValueError
      | c # cs \<Rightarrow>
          if c = CHR ''-'' then
            (if cs = [] then Inl ValueError
             else case nat_of_digits 0 cs of None \<Rightarrow> Inl ValueError | Some n \<Rightarrow> Inr (- int n))
          else (case nat_of_digits 0 s of None \<Rightarrow> Inl ValueError | Some n \<Rightarrow> Inr (int n)))"

section \<open>Caller identity (\<^verbatim>\<open>get_user_from_request\<close>)\<close>

text \<open>
  \<^verbatim>\<open>merge_params\<close> merges the query arguments with the body parameters; its result is a
  dictionary. The identity values the embedding host sends are texts.
\<close>

record user_info =
  user_id :: string
  user_name :: string

type_synonym params = "(string \<times> string) list"

definition param_get :: "params \<Rightarrow> string \<Rightarrow> string \<Rightarrow> string" where
  "param_get ps k dflt = (case map_of ps k of None \<Rightarrow> dflt | Some v \<Rightarrow> v)"

definition get_user_from_request :: "params \<Rightarrow> user_info" where
  "get_user_from_request ps =
     \<lparr> user_id = param_get ps ''user_id'' ''unknown'',
       user_name = param_get ps ''user_name'' ''Unknown User'' \<rparr>"

section \<open>The conference table (\<^verbatim>\<open>database.py\<close>)\<close>

text \<open>
  A stored value is NULL, an integer or a text. The \<^verbatim>\<open>cohosts\<close> column only ever holds
  the text \<^verbatim>\<open>json.dumps\<close> wrote; that text is represented by the value it encodes, it is
  never empty, and \<^verbatim>\<open>json.loads\<close> gives the value back.
\<close>

datatype sqlval = SNull | SInt int | SText string

datatype jsontext = JsonText pyval

definition json_dumps :: "pyval \<Rightarrow> jsontext" where
  "json_dumps v = JsonText v"

fun json_loads :: "jsontext \<Rightarrow> pyval" where
  "json_loads (JsonText v) = v"

record conf_row =
  r_id :: int
  r_name :: sqlval
  r_type :: sqlval
  r_description :: sqlval
  r_start_date :: sqlval
  r_start_time :: sqlval
  r_cohosts :: jsontext
  r_create_calendar_event :: sqlval
  r_invite_users :: sqlval
  r_live_stream_title :: sqlval
  r_live_stream_description :: sqlval
  r_owner_id :: sqlval
  r_owner_name :: sqlval
  r_link :: sqlval
  r_status :: sqlval
  r_created_at :: string
  r_updated_at :: string

text \<open>
  The database: the rows of \<^verbatim>\<open>conferences\<close> in rowid order, and the counter that
  \<^verbatim>\<open>AUTOINCREMENT\<close> keeps of the largest rowid ever used.
\<close>

record db =
  rows :: "conf_row list"
  seq :: int

text \<open>
  Binding a Python value to a statement parameter: \<^verbatim>\<open>None\<close>, booleans, integers of 64
  bits and texts are accepted; a list or a dictionary is refused, and so is a larger
  integer.
\<close>

definition bind_error :: "pyval \<Rightarrow> exn option" where
  "bind_error v =
     (case v of
        PList xs \<Rightarrow> Some BindError
      | PDict d \<Rightarrow> Some BindError
      | PInt i \<Rightarrow> (if - (2 ^ 63) \<le> i \<and> i < 2 ^ 63 then None else Some OverflowError)
      | _ \<Rightarrow> None)"

fun first_bind_error :: "pyval list \<Rightarrow> exn option" where
  "first_bind_error [] = None"
| "first_bind_error (v # vs) =
     (case bind_error v of Some e \<Rightarrow> Some e | None \<Rightarrow> first_bind_error vs)"

definition to_sql :: "pyval \<Rightarrow> sqlval" where
  "to_sql v =
     (case v of
        PBool b \<Rightarrow> SInt (if b then 1 else 0)
      | PInt i \<Rightarrow> SInt i
      | PStr s \<Rightarrow> SText s
      | _ \<Rightarrow> SNull)"

definition from_sql :: "sqlval \<Rightarrow> pyval" where
  "from_sql v = (case v of SNull \<Rightarrow> PNone | SInt i \<Rightarrow> PInt i | SText s \<Rightarrow> PStr s)"

text \<open>
  Column affinity. A \<^verbatim>\<open>TEXT\<close> column stores an integer as its decimal text. The
  \<^verbatim>\<open>DATE\<close>, \<^verbatim>\<open>TIME\<close> and \<^verbatim>\<open>BOOLEAN\<close> columns have numeric affinity: the storage
  engine converts a text that reads as a number and keeps any other text. That
  conversion belongs to the engine, not to this repository, and is the parameter
  \<open>aff\<close> of the operations that write.
\<close>

definition text_affinity :: "sqlval \<Rightarrow> sqlval" where
  "text_affinity v = (case v of SInt i \<Rightarrow> SText (str_int i) | _ \<Rightarrow> v)"

definition numeric_affinity :: "(string \<Rightarrow> sqlval) \<Rightarrow> sqlval \<Rightarrow> sqlval" where
  "numeric_affinity aff v = (case v of SText s \<Rightarrow> aff s | _ \<Rightarrow> v)"

text \<open>The constraints of \<^verbatim>\<open>init_db\<close>: \<^verbatim>\<open>NOT NULL\<close>, the \<^verbatim>\<open>CHECK\<close> on the type, and
  \<^verbatim>\<open>link TEXT UNIQUE\<close> (NULL links never collide).\<close>

definition type_check :: "sqlval \<Rightarrow> bool" where
  "type_check t = (t = SNull \<or> t = SText ''conference'' \<or> t = SText ''broadcast'')"

definition link_taken :: "conf_row list \<Rightarrow> sqlval \<Rightarrow> bool" where
  "link_taken rs l = (l \<noteq> SNull \<and> l \<in> set (map r_link rs))"

definition constraints_ok :: "conf_row list \<Rightarrow> conf_row \<Rightarrow> bool" where
  "constraints_ok others r =
     (r_name r \<noteq> SNull \<and> r_type r \<noteq> SNull \<and> r_owner_id r \<noteq> SNull \<and> r_owner_name r \<noteq> SNull
      \<and> type_check (r_type r) \<and> \<not> link_taken others (r_link r))"

definition next_id :: "db \<Rightarrow> int" where
  "next_id d = fold max (map r_id (rows d)) (seq d) + 1"

text \<open>
  \<^verbatim>\<open>save_conference\<close>: the parameter tuple is built first (a missing \<^verbatim>\<open>name\<close>,
  \<^verbatim>\<open>type\<close> or \<^verbatim>\<open>ownerId\<close> raises \<^verbatim>\<open>KeyError\<close>), then the \<^verbatim>\<open>INSERT\<close> runs at the
  time \<open>now\<close>. An \<^verbatim>\<open>id\<close> in the dictionary is not among the inserted columns. A failed
  statement leaves the database as it was. The result is \<^verbatim>\<open>str(cursor.lastrowid)\<close>.
\<close>

definition save_conference ::
  "(string \<Rightarrow> sqlval) \<Rightarrow> string \<Rightarrow> db \<Rightarrow> pydict \<Rightarrow> exn + (db \<times> string)" where
  "save_conference aff now d conference_data =
     (let cohosts_str = json_dumps (dict_get conference_data ''cohosts'' (PList [])) in
      case dict_item conference_data ''name'' of Inl e \<Rightarrow> Inl e | Inr name \<Rightarrow>
      case dict_item conference_data ''type'' of Inl e \<Rightarrow> Inl e | Inr type \<Rightarrow>
      case dict_item conference_data ''ownerId'' of Inl e \<Rightarrow> Inl e | Inr ownerId \<Rightarrow>
      let description = dict_get conference_data ''description'' (PStr []);
          startDate = dict_get conference_data ''startDate'' (PStr []);
          startTime = dict_get conference_data ''startTime'' (PStr []);
          createCalendarEvent = dict_get conference_data ''createCalendarEvent'' (PBool False);
          inviteUsers = dict_get conference_data ''inviteUsers'' (PBool False);
          liveStreamTitle = dict_get conference_data ''liveStreamTitle'' (PStr []);
          liveStreamDescription = dict_get conference_data ''liveStreamDescription'' (PStr []);
          ownerName = dict_get conference_data ''ownerName'' (PStr ''Unknown'');
          link = dict_get conference_data ''link'' (PStr []);
          status = dict_get conference_data ''status'' (PStr ''scheduled'')
      in case first_bind_error
                [name, type, description, startDate, startTime, createCalendarEvent,
                 inviteUsers, liveStreamTitle, liveStreamDescription, ownerId, ownerName,
                 link, status] of
           Some e \<Rightarrow> Inl e
         | None \<Rightarrow>
            (let conference_id = next_id d;
                 r = \<lparr> r_id = conference_id,
                       r_name = text_affinity (to_sql name),
                       r_type = text_affinity (to_sql type),
                       r_description = text_affinity (to_sql description),
                       r_start_date = numeric_affinity aff (to_sql startDate),
                       r_start_time = numeric_affinity aff (to_sql startTime),
                       r_cohosts = cohosts_str,
                       r_create_calendar_event = numeric_affinity aff (to_sql createCalendarEvent),
                       r_invite_users = numeric_affinity aff (to_sql inviteUsers),
                       r_live_stream_title = text_affinity (to_sql liveStreamTitle),
                       r_live_stream_description = text_affinity (to_sql liveStreamDescription),
                       r_owner_id = text_affinity (to_sql ownerId),
                       r_owner_name = text_affinity (to_sql ownerName),
                       r_link = text_affinity (to_sql link),
                       r_status = text_affinity (to_sql status),
                       r_created_at = now,
                       r_updated_at = now \<rparr>
             in if constraints_ok (rows d) r
                then Inr (\<lparr> rows = rows d @ [r], seq = conference_id \<rparr>, str_int conference_id)
                else Inl IntegrityError))"

text \<open>The dictionary every read function builds from a selected row; \<^verbatim>\<open>updated_at\<close> is
  not among the selected columns.\<close>

definition row_dict :: "conf_row \<Rightarrow> pyval" where
  "row_dict r = PDict
     [(''id'', PInt (r_id r)),
      (''name'', from_sql (r_name r)),
      (''type'', from_sql (r_type r)),
      (''description'', from_sql (r_description r)),
      (''startDate'', from_sql (r_start_date r)),
      (''startTime'', from_sql (r_start_time r)),
      (''cohosts'', json_loads (r_cohosts r)),
      (''createCalendarEvent'', PBool (truthy (from_sql (r_create_calendar_event r)))),
      (''inviteUsers'', PBool (truthy (from_sql (r_invite_users r)))),
      (''liveStreamTitle'', from_sql (r_live_stream_title r)),
      (''liveStreamDescription'', from_sql (r_live_stream_description r)),
      (''ownerId'', from_sql (r_owner_id r)),
      (''ownerName'', from_sql (r_owner_name r)),
      (''link'', from_sql (r_link r)),
      (''status'', from_sql (r_status r)),
      (''createdAt'', PStr (r_created_at r))]"

text \<open>
  \<^verbatim>\<open>ORDER BY created_at DESC\<close>. The timestamps are texts of one format, compared as
  texts. SQL leaves the order of rows with equal timestamps open; here they keep their
  table order.
\<close>

fun insert_desc :: "conf_row \<Rightarrow> conf_row list \<Rightarrow> conf_row list" where
  "insert_desc r [] = [r]"
| "insert_desc r (x # xs) =
     (if r_created_at x \<le> r_created_at r then r # x # xs else x # insert_desc r xs)"

definition order_by_created_desc :: "conf_row list \<Rightarrow> conf_row list" where
  "order_by_created_desc rs = foldr insert_desc rs []"

definition get_user_conferences :: "db \<Rightarrow> string \<Rightarrow> pyval list" where
  "get_user_conferences d owner_id =
     map row_dict (order_by_created_desc (filter (\<lambda>r. r_owner_id r = SText owner_id) (rows d)))"

definition get_all_conferences :: "db \<Rightarrow> pyval list" where
  "get_all_conferences d = map row_dict (order_by_created_desc (rows d))"

definition get_conference_by_id :: "db \<Rightarrow> int \<Rightarrow> pyval" where
  "get_conference_by_id d conf_id =
     (case find (\<lambda>r. r_id r = conf_id) (rows d) of None \<Rightarrow> PNone | Some r \<Rightarrow> row_dict r)"

text \<open>
  \<^verbatim>\<open>update_conference\<close> of \<^verbatim>\<open>database.py\<close>: every column but \<^verbatim>\<open>id\<close>, \<^verbatim>\<open>owner_id\<close>
  and \<^verbatim>\<open>created_at\<close> is overwritten from the dictionary (\<^verbatim>\<open>name\<close> and \<^verbatim>\<open>type\<close> are
  required keys), and the trigger sets \<^verbatim>\<open>updated_at\<close>. The result tells whether a row
  matched.
\<close>

definition db_update_conference ::
  "(string \<Rightarrow> sqlval) \<Rightarrow> string \<Rightarrow> db \<Rightarrow> int \<Rightarrow> pydict \<Rightarrow> exn + (db \<times> bool)" where
  "db_update_conference aff now d conf_id conference_data =
     (let cohosts_str = json_dumps (dict_get conference_data ''cohosts'' (PList [])) in
      case dict_item conference_data ''name'' of Inl e \<Rightarrow> Inl e | Inr name \<Rightarrow>
      case dict_item conference_data ''type'' of Inl e \<Rightarrow> Inl e | Inr type \<Rightarrow>
      let description = dict_get conference_data ''description'' (PStr []);
          startDate = dict_get conference_data ''startDate'' (PStr []);
          startTime = dict_get conference_data ''startTime'' (PStr []);
          createCalendarEvent = dict_get conference_data ''createCalendarEvent'' (PBool False);
          inviteUsers = dict_get conference_data ''inviteUsers'' (PBool False);
          liveStreamTitle = dict_get conference_data ''liveStreamTitle'' (PStr []);
          liveStreamDescription = dict_get conference_data ''liveStreamDescription'' (PStr []);
          ownerName = dict_get conference_data ''ownerName'' (PStr ''Unknown'');
          link = dict_get conference_data ''link'' (PStr []);
          status = dict_get conference_data ''status'' (PStr ''scheduled'')
      in case first_bind_error
                [name, type, description, startDate, startTime, createCalendarEvent,
                 inviteUsers, liveStreamTitle, liveStreamDescription, ownerName, link,
                 status] of
           Some e \<Rightarrow> Inl e
         | None \<Rightarrow>
            (case find (\<lambda>r. r_id r = conf_id) (rows d) of
               None \<Rightarrow> Inr (d, False)
             | Some r \<Rightarrow>
                (let r' = r \<lparr> r_name := text_affinity (to_sql name),
                              r_type := text_affinity (to_sql type),
                              r_description := text_affinity (to_sql description),
                              r_start_date := numeric_affinity aff (to_sql startDate),
                              r_start_time := numeric_affinity aff (to_sql startTime),
                              r_cohosts := cohosts_str,
                              r_create_calendar_event :=
                                numeric_affinity aff (to_sql createCalendarEvent),
                              r_invite_users := numeric_affinity aff (to_sql inviteUsers),
                              r_live_stream_title := text_affinity (to_sql liveStreamTitle),
                              r_live_stream_description :=
                                text_affinity (to_sql liveStreamDescription),
                              r_owner_name := text_affinity (to_sql ownerName),
                              r_link := text_affinity (to_sql link),
                              r_status := text_affinity (to_sql status),
                              r_updated_at := now \<rparr>;
                     others = filter (\<lambda>x. r_id x \<noteq> conf_id) (rows d)
                 in if constraints_ok others r'
                    then Inr (d \<lparr> rows := map (\<lambda>x. if r_id x = conf_id then r' else x) (rows d) \<rparr>,
                              True)
                    else Inl IntegrityError)))"

text \<open>\<^verbatim>\<open>delete_conference\<close> of \<^verbatim>\<open>database.py\<close>.\<close>

definition db_delete_conference :: "db \<Rightarrow> int \<Rightarrow> db \<times> bool" where
  "db_delete_conference d conf_id =
     (d \<lparr> rows := filter (\<lambda>r. r_id r \<noteq> conf_id) (rows d) \<rparr>,
      find (\<lambda>r. r_id r = conf_id) (rows d) \<noteq> None)"

section \<open>The remote client (\<^verbatim>\<open>models/telemost.py\<close>)\<close>

text \<open>
  What the \<^verbatim>\<open>requests\<close> library gives back for the one request a client call makes:
  a network failure with its message, or a response with a status, a reason phrase and a
  body. A body is empty, a JSON document, or a text that is not JSON (with the decoder's
  message). The JSON decoding error of \<^verbatim>\<open>response.json()\<close> is, as in requests 2.27 and
  later, both a \<^verbatim>\<open>json.JSONDecodeError\<close> and a \<^verbatim>\<open>RequestException\<close>.
\<close>

datatype http_body = EmptyBody | JsonBody pyval | RawBody string string

record http_response =
  status_code :: nat
  reason :: string
  content :: http_body

datatype http_outcome = NetworkFailure string | Answered http_response

text \<open>
  The environment of a request: the storage engine's numeric conversion of a text, the
  \<^verbatim>\<open>CURRENT_TIMESTAMP\<close> of the \<open>n\<close>-th statement the request writes, the text of
  \<^verbatim>\<open>datetime.now().isoformat()\<close>, and Python's \<^verbatim>\<open>str\<close> of a list or dictionary.
\<close>

record env =
  numeric_text :: "string \<Rightarrow> sqlval"
  clock :: "nat \<Rightarrow> string"
  now_iso :: string
  container_str :: "pyval \<Rightarrow> string"

definition py_str :: "env \<Rightarrow> pyval \<Rightarrow> string" where
  "py_str E v =
     (case v of
        PNone \<Rightarrow> ''None''
      | PBool b \<Rightarrow> (if b then ''True'' else ''False'')
      | PInt i \<Rightarrow> str_int i
      | PStr s \<Rightarrow> s
      | _ \<Rightarrow> container_str E v)"

text \<open>\<^verbatim>\<open>s.upper()\<close> and \<^verbatim>\<open>s.lower()\<close> on ASCII letters, and \<^verbatim>\<open>p in s\<close> on texts.\<close>

definition upper_char :: "char \<Rightarrow> char" where
  "upper_char c =
     (case map_of (zip ''abcdefghijklmnopqrstuvwxyz'' ''ABCDEFGHIJKLMNOPQRSTUVWXYZ'') c of
        None \<Rightarrow> c | Some u \<Rightarrow> u)"

definition lower_char :: "char \<Rightarrow> char" where
  "lower_char c =
     (case map_of (zip ''ABCDEFGHIJKLMNOPQRSTUVWXYZ'' ''abcdefghijklmnopqrstuvwxyz'') c of
        None \<Rightarrow> c | Some l \<Rightarrow> l)"

definition upper :: "string \<Rightarrow> string" where
  "upper s = map upper_char s"

definition lower :: "string \<Rightarrow> string" where
  "lower s = map lower_char s"

fun has_substr :: "string \<Rightarrow> string \<Rightarrow> bool" where
  "has_substr p [] = (p = [])"
| "has_substr p (c # cs) = (take (length p) (c # cs) = p \<or> has_substr p cs)"

text \<open>\<^verbatim>\<open>k in x\<close> for a text \<open>k\<close>: a key of a dictionary, an element of a list, a part of a
  text; any other value raises \<^verbatim>\<open>TypeError\<close>.\<close>

definition py_in :: "string \<Rightarrow> pyval \<Rightarrow> exn + bool" where
  "py_in k x =
     (case x of
        PDict d \<Rightarrow> Inr (map_of d k \<noteq> None)
      | PList xs \<Rightarrow> Inr (PStr k \<in> set xs)
      | PStr s \<Rightarrow> Inr (has_substr k s)
      | _ \<Rightarrow> Inl TypeError)"

text \<open>Iterating a value: a list gives its elements, a text its characters, a dictionary
  its keys.\<close>

definition py_iter :: "pyval \<Rightarrow> exn + pyval list" where
  "py_iter x =
     (case x of
        PList xs \<Rightarrow> Inr xs
      | PStr s \<Rightarrow> Inr (map (\<lambda>c. PStr [c]) s)
      | PDict d \<Rightarrow> Inr (map (\<lambda>kv. PStr (fst kv)) d)
      | _ \<Rightarrow> Inl TypeError)"

text \<open>\<^verbatim>\<open>[{'email': email} for email in cohosts_data if '@' in email]\<close>\<close>

fun cohost_emails :: "pyval list \<Rightarrow> exn + pyval list" where
  "cohost_emails [] = Inr []"
| "cohost_emails (email # rest) =
     (case py_in ''@'' email of
        Inl e \<Rightarrow> Inl e
      | Inr keep \<Rightarrow>
         (case cohost_emails rest of
            Inl e \<Rightarrow> Inl e
          | Inr out \<Rightarrow> Inr (if keep then PDict [(''email'', email)] # out else out)))"

text \<open>The payload \<^verbatim>\<open>api_call\<close> builds for \<^verbatim>\<open>POST conferences\<close>.\<close>

definition yandex_format_data :: "pyval \<Rightarrow> exn + pydict" where
  "yandex_format_data data =
     (let base = [(''waiting_room_level'', PStr ''PUBLIC'')] in
      case (if truthy data
            then (case py_get data ''type'' PNone of
                    Inl e \<Rightarrow> Inl e
                  | Inr t \<Rightarrow>
                     if t = PStr ''broadcast''
                     then (case data of
                             PDict dd \<Rightarrow>
                               Inr (base @
                                 [(''live_stream'', PDict
                                    [(''title'', dict_get dd ''liveStreamTitle''
                                                   (dict_get dd ''live_stream_title'' (PStr []))),
                                     (''description'', dict_get dd ''liveStreamDescription''
                                                   (dict_get dd ''live_stream_description'' (PStr [])))])])
                           | _ \<Rightarrow> Inl AttributeError)
                     else Inr base)
            else Inr base) of
        Inl e \<Rightarrow> Inl e
      | Inr fmt \<Rightarrow>
         (case py_get data ''cohosts'' (PList []) of
            Inl e \<Rightarrow> Inl e
          | Inr cohosts_data \<Rightarrow>
             if truthy cohosts_data
             then (case py_iter cohosts_data of
                     Inl e \<Rightarrow> Inl e
                   | Inr items \<Rightarrow>
                      (case cohost_emails items of
                         Inl e \<Rightarrow> Inl e
                       | Inr emails \<Rightarrow> Inr (fmt @ [(''cohosts'', PList emails)])))
             else Inr fmt))"

text \<open>The dictionary \<^verbatim>\<open>api_call\<close> returns for a created conference (lines 168 to 183):
  the request's fields when a payload was given, the answer's otherwise.\<close>

definition created_conf_data :: "env \<Rightarrow> pyval \<Rightarrow> pydict \<Rightarrow> exn + pyval" where
  "created_conf_data E data y =
     (let ident = dict_get y ''id'' (dict_get y ''ID'' PNone);
          link = dict_get y ''link'' (dict_get y ''JOIN_URL'' (dict_get y ''join_url''
                   (PStr (''https://telemost.yandex.ru/j/'' @
                          py_str E (dict_get y ''id'' (dict_get y ''ID'' (PStr ''new'')))))))
      in if truthy data
         then (case data of
                 PDict dd \<Rightarrow>
                   Inr (PDict
                     [(''id'', ident),
                      (''name'', dict_get dd ''name'' PNone),
                      (''type'', dict_get dd ''type'' (PStr ''conference'')),
                      (''description'', dict_get dd ''description'' (PStr [])),
                      (''startDate'', dict_get dd ''startDate'' (PStr [])),
                      (''startTime'', dict_get dd ''startTime'' (PStr [])),
                      (''cohosts'', dict_get dd ''cohosts'' (PList [])),
                      (''createCalendarEvent'', dict_get dd ''createCalendarEvent'' (PBool False)),
                      (''inviteUsers'', dict_get dd ''inviteUsers'' (PBool False)),
                      (''liveStreamTitle'', dict_get dd ''liveStreamTitle'' (PStr [])),
                      (''liveStreamDescription'', dict_get dd ''liveStreamDescription'' (PStr [])),
                      (''status'', PStr ''scheduled''),
                      (''link'', link),
                      (''createdAt'', PStr (now_iso E))])
               | _ \<Rightarrow> Inl AttributeError)
         else Inr (PDict
                [(''id'', ident),
                 (''name'', dict_get y ''name'' (PStr [])),
                 (''type'', dict_get y ''type'' (PStr ''conference'')),
                 (''description'', dict_get y ''description'' (PStr [])),
                 (''startDate'', dict_get y ''start_date'' (PStr [])),
                 (''startTime'', dict_get y ''start_time'' (PStr [])),
                 (''cohosts'', dict_get y ''cohosts'' (PList [])),
                 (''createCalendarEvent'', dict_get y ''create_calendar_event'' (PBool False)),
                 (''inviteUsers'', dict_get y ''invite_users'' (PBool False)),
                 (''liveStreamTitle'', dict_get y ''live_stream_title'' (PStr [])),
                 (''liveStreamDescription'', dict_get y ''live_stream_description'' (PStr [])),
                 (''status'', PStr ''scheduled''),
                 (''link'', link),
                 (''createdAt'', PStr (now_iso E))]))"

definition request_failed :: "string \<Rightarrow> nat option \<Rightarrow> pyval" where
  "request_failed msg code =
     PDict [(''error'', PStr (''Request failed: '' @ msg)),
            (''status_code'', (case code of None \<Rightarrow> PNone | Some c \<Rightarrow> PInt (int c)))]"

text \<open>
  \<^verbatim>\<open>TelemostAPI.api_call\<close>. \<open>session_token\<close> is the session's
  \<^verbatim>\<open>yandex_access_token\<close>, \<open>oauth_token\<close> the configured permanent token, \<open>api_base\<close>
  the configured base address, and \<open>http\<close> what the request gives back if it is made.
  \<open>Inl\<close> is an exception that leaves the method.
\<close>

definition token_truthy :: "string option \<Rightarrow> bool" where
  "token_truthy t = (case t of None \<Rightarrow> False | Some s \<Rightarrow> s \<noteq> [])"

definition api_call ::
  "env \<Rightarrow> string option \<Rightarrow> string option \<Rightarrow> string \<Rightarrow> http_outcome \<Rightarrow>
   string \<Rightarrow> string \<Rightarrow> string option \<Rightarrow> pyval \<Rightarrow> exn + pyval" where
  "api_call E session_token oauth_token api_base http method endpoint access_token data =
     (let access_token1 = (if \<not> token_truthy access_token
                           then (if \<not> token_truthy session_token then oauth_token
                                 else session_token)
                           else access_token) in
      if \<not> token_truthy access_token1
      then Inr (PDict [(''error'', PStr ''No access token available'')])
      else
       let url = (if has_substr ''conferences'' (lower endpoint)
                  then ''https://cloud-api.yandex.net/v1/telemost-api/conferences''
                  else api_base @ ''/'' @ endpoint);
           sent = (if upper method = ''GET'' then Inr (Some http)
                   else if upper method = ''POST'' then
                     (if has_substr ''conferences'' (lower endpoint)
                      then (case yandex_format_data data of
                              Inl e \<Rightarrow> Inl e | Inr payload \<Rightarrow> Inr (Some http))
                      else Inr (Some http))
                   else if upper method = ''PUT'' then Inr (Some http)
                   else if upper method = ''DELETE'' then Inr (Some http)
                   else Inr None)
       in case sent of
            Inl e \<Rightarrow> Inl e
          | Inr None \<Rightarrow> Inr (PDict [(''error'', PStr (''Unsupported HTTP method: '' @ method))])
          | Inr (Some (NetworkFailure msg)) \<Rightarrow> Inr (request_failed msg None)
          | Inr (Some (Answered response)) \<Rightarrow>
             if status_code response \<noteq> 200 \<and> status_code response \<noteq> 201
             then
               (let error_response =
                      (case content response of
                         JsonBody v \<Rightarrow> v
                       | _ \<Rightarrow> PDict [(''error'', PStr ''Response was not JSON''),
                                     (''status_code'', PInt (int (status_code response)))])
                in Inr (PDict [(''error'', error_response),
                               (''status_code'', PInt (int (status_code response)))]))
             else
               (case content response of
                  EmptyBody \<Rightarrow>
                    Inr (PDict [(''success'', PBool True),
                                (''status_code'', PInt (int (status_code response)))])
                | RawBody text msg \<Rightarrow> Inr (PDict [(''result'', PStr text)])
                | JsonBody result \<Rightarrow>
                    if upper method = ''POST'' \<and> has_substr ''conferences'' url
                    then (case result of
                            PDict y \<Rightarrow> created_conf_data E data y
                          | _ \<Rightarrow> Inl AttributeError)
                    else Inr result))"

text \<open>\<^verbatim>\<open>TelemostAPI.get_conferences\<close>: \<^verbatim>\<open>raise_for_status\<close> raises for the statuses 400
  to 599, with the message the library composes.\<close>

definition http_error_msg :: "http_response \<Rightarrow> string \<Rightarrow> string" where
  "http_error_msg r url =
     str_nat (status_code r) @
     (if status_code r < 500 then '' Client Error: '' else '' Server Error: '') @
     reason r @ '' for url: '' @ url"

definition api_get_conferences :: "http_outcome \<Rightarrow> exn + pyval" where
  "api_get_conferences http =
     (case http of
        NetworkFailure msg \<Rightarrow> Inr (request_failed msg None)
      | Answered response \<Rightarrow>
         if 400 \<le> status_code response \<and> status_code response < 600
         then Inr (request_failed
                     (http_error_msg response
                        ''https://cloud-api.yandex.net/v1/telemost-api/conferences'')
                     (Some (status_code response)))
         else (case content response of
                 EmptyBody \<Rightarrow> Inr (PList [])
               | JsonBody result \<Rightarrow> Inr result
               | RawBody text msg \<Rightarrow> Inr (request_failed msg None)))"

section \<open>The conference handlers (\<^verbatim>\<open>app.py\<close>)\<close>

text \<open>
  A response is a status and a body. A body is a JSON document, or the document
  \<^verbatim>\<open>{'error': f'<prefix>: {str(e)}'}\<close> of a caught exception \<open>e\<close>, kept as the prefix
  and the exception.
\<close>

datatype body = Json pyval | ErrorMsg string exn

record response =
  resp_status :: nat
  resp_body :: body

definition jsonify :: "pyval \<Rightarrow> response" where
  "jsonify v = \<lparr> resp_status = 200, resp_body = Json v \<rparr>"

text \<open>\<^verbatim>\<open>session.get('yandex_access_token') or current_app.config.get('YANDEX_OAUTH_TOKEN')\<close>\<close>

definition resolve_token :: "string option \<Rightarrow> string option \<Rightarrow> string option" where
  "resolve_token session_token config_token =
     (if token_truthy session_token then session_token else config_token)"

text \<open>The dictionary \<^verbatim>\<open>get_conferences\<close> builds from one remote record (lines 380 to
  397, and again 416 to 433).\<close>

definition conf_data_of :: "user_info \<Rightarrow> pydict \<Rightarrow> pydict" where
  "conf_data_of u conf =
     [(''id'', dict_get conf ''id'' (dict_get conf ''ID'' PNone)),
      (''name'', dict_get conf ''name'' PNone),
      (''type'', dict_get conf ''type'' (PStr ''conference'')),
      (''description'', dict_get conf ''description'' (PStr [])),
      (''startDate'', dict_get conf ''start_date'' (dict_get conf ''startDate'' (PStr []))),
      (''startTime'', dict_get conf ''start_time'' (dict_get conf ''startTime'' (PStr []))),
      (''cohosts'', dict_get conf ''cohosts'' (dict_get conf ''participants'' (PList []))),
      (''createCalendarEvent'',
         dict_get conf ''create_calendar_event'' (dict_get conf ''createCalendarEvent'' (PBool False))),
      (''inviteUsers'', dict_get conf ''invite_users'' (dict_get conf ''inviteUsers'' (PBool False))),
      (''liveStreamTitle'',
         dict_get conf ''live_stream_title'' (dict_get conf ''liveStreamTitle'' (PStr []))),
      (''liveStreamDescription'',
         dict_get conf ''live_stream_description'' (dict_get conf ''liveStreamDescription'' (PStr []))),
      (''ownerId'', PStr (user_id u)),
      (''ownerName'', PStr (user_name u)),
      (''status'', dict_get conf ''status'' (PStr ''scheduled'')),
      (''link'', dict_get conf ''link'' (dict_get conf ''LINK'' (PStr []))),
      (''createdAt'', dict_get conf ''created_at'' (dict_get conf ''createdAt'' PNone))]"

text \<open>
  The loop over the remote records. A record that is not a dictionary has no
  \<^verbatim>\<open>get\<close>: the \<^verbatim>\<open>AttributeError\<close> leaves the loop (the rows saved so far stay). A
  failed \<^verbatim>\<open>save_conference\<close> is passed over.
\<close>

fun sync_loop :: "env \<Rightarrow> user_info \<Rightarrow> nat \<Rightarrow> pyval list \<Rightarrow> db \<Rightarrow> db \<times> exn option" where
  "sync_loop E u i [] d = (d, None)"
| "sync_loop E u i (conf # confs) d =
     (case conf of
        PDict c \<Rightarrow>
          (case save_conference (numeric_text E) (clock E i) d (conf_data_of u c) of
             Inl e \<Rightarrow> sync_loop E u (Suc i) confs d
           | Inr saved \<Rightarrow> sync_loop E u (Suc i) confs (fst saved))
      | _ \<Rightarrow> (d, Some AttributeError))"

text \<open>
  \<^verbatim>\<open>get_conferences\<close> of \<^verbatim>\<open>app.py\<close> once a token is there; \<open>client\<close> is what
  \<^verbatim>\<open>telemost_api.get_conferences\<close> returned or raised. Every exception inside the
  \<^verbatim>\<open>try\<close> ends in the \<^verbatim>\<open>except\<close> branch, which answers from the local table.
\<close>

definition list_after_client :: "env \<Rightarrow> user_info \<Rightarrow> exn + pyval \<Rightarrow> db \<Rightarrow> db \<times> response" where
  "list_after_client E u client d =
     (let local = (\<lambda>d'. (d', jsonify (PList (get_user_conferences d' (user_id u))))) in
      case client of
        Inl e \<Rightarrow> local d
      | Inr yandex_conferences \<Rightarrow>
         (case py_in ''error'' yandex_conferences of
            Inl e \<Rightarrow> local d
          | Inr has_error \<Rightarrow>
             if \<not> has_error then
               (case yandex_conferences of
                  PList confs \<Rightarrow> local (fst (sync_loop E u 0 confs d))
                | PDict yd \<Rightarrow>
                   (case map_of yd ''result'' of
                      Some (PList conferences_list) \<Rightarrow>
                        local (fst (sync_loop E u 0 conferences_list d))
                    | _ \<Rightarrow> local d)
                | _ \<Rightarrow> local d)
             else local d))"

definition app_get_conferences ::
  "env \<Rightarrow> params \<Rightarrow> string option \<Rightarrow> string option \<Rightarrow> http_outcome \<Rightarrow> db \<Rightarrow> db \<times> response" where
  "app_get_conferences E ps session_token config_token http d =
     (let user_info = get_user_from_request ps;
          yandex_token = resolve_token session_token config_token
      in if token_truthy yandex_token
         then list_after_client E user_info (api_get_conferences http) d
         else (d, jsonify (PList (get_user_conferences d (user_id user_info)))))"

text \<open>
  \<^verbatim>\<open>create_conference\<close> of \<^verbatim>\<open>app.py\<close>, the branch without a token. \<open>data\<close> is the
  request's JSON body. \<open>Inl\<close> is an exception no handler catches (the framework answers
  500).
\<close>

definition local_conference_data :: "user_info \<Rightarrow> pydict \<Rightarrow> db \<Rightarrow> pydict" where
  "local_conference_data u data d =
     [(''type'', dict_get data ''type'' (PStr ''conference'')),
      (''name'', dict_get data ''name'' PNone),
      (''description'', PStr []),
      (''startDate'', PStr []),
      (''startTime'', PStr []),
      (''cohosts'', dict_get data ''cohosts'' (PList [])),
      (''createCalendarEvent'', PBool False),
      (''inviteUsers'', PBool False),
      (''liveStreamTitle'', PStr []),
      (''liveStreamDescription'', PStr []),
      (''ownerId'', PStr (user_id u)),
      (''ownerName'', PStr (user_name u)),
      (''status'', PStr ''scheduled''),
      (''link'', PStr (''https://telemost.yandex.ru/j/'' @
                      str_int (int (length (get_user_conferences d (user_id u))) + 1)))]"

definition create_without_token :: "env \<Rightarrow> user_info \<Rightarrow> pyval \<Rightarrow> db \<Rightarrow> exn + (db \<times> response)" where
  "create_without_token E u data d =
     (case data of
        PDict dd \<Rightarrow>
          (let conference_data = local_conference_data u dd d in
           case save_conference (numeric_text E) (clock E 0) d conference_data of
             Inl e \<Rightarrow>
               Inr (d, \<lparr> resp_status = 500, resp_body = ErrorMsg ''Failed to save conference'' e \<rparr>)
           | Inr saved \<Rightarrow>
              (let d' = fst saved; conference_id = snd saved in
               if conference_id \<noteq> []
               then (case int_of_str conference_id of
                       Inl e \<Rightarrow>
                         Inr (d', \<lparr> resp_status = 500,
                                    resp_body = ErrorMsg ''Failed to save conference'' e \<rparr>)
                     | Inr i \<Rightarrow> Inr (d', jsonify (PDict (dict_set conference_data ''id'' (PInt i)))))
               else Inr (d', jsonify (PDict (dict_set conference_data ''id''
                                (PInt (int (length (get_all_conferences d')))))))))
      | _ \<Rightarrow> Inl AttributeError)"

text \<open>The branch with a token: the conference is created remotely first.\<close>

definition remote_conference_data :: "env \<Rightarrow> user_info \<Rightarrow> pydict \<Rightarrow> pydict \<Rightarrow> db \<Rightarrow> pydict" where
  "remote_conference_data E u data result d =
     (let fallback_id = PInt (int (length (get_user_conferences d (user_id u))) + 1) in
      [(''type'', dict_get data ''type'' (PStr ''conference'')),
       (''name'', dict_get data ''name'' PNone),
       (''description'', PStr []),
       (''startDate'', PStr []),
       (''startTime'', PStr []),
       (''cohosts'', dict_get data ''cohosts'' (PList [])),
       (''createCalendarEvent'', PBool False),
       (''inviteUsers'', PBool False),
       (''liveStreamTitle'', PStr []),
       (''liveStreamDescription'', PStr []),
       (''ownerId'', PStr (user_id u)),
       (''ownerName'', PStr (user_name u)),
       (''status'', PStr ''scheduled''),
       (''link'', dict_get result ''link'' (dict_get result ''LINK''
            (PStr (''https://telemost.yandex.ru/j/'' @
                   py_str E (dict_get result ''id'' (dict_get result ''ID'' fallback_id)))))),
       (''id'', dict_get result ''id'' (dict_get result ''ID'' fallback_id))])"

definition create_with_token ::
  "env \<Rightarrow> user_info \<Rightarrow> string option \<Rightarrow> string option \<Rightarrow> string option \<Rightarrow> string \<Rightarrow>
   http_outcome \<Rightarrow> pyval \<Rightarrow> db \<Rightarrow> db \<times> response" where
  "create_with_token E u yandex_token session_token config_token api_base http data d =
     (let failed = (\<lambda>e. (d, \<lparr> resp_status = 500, resp_body = ErrorMsg ''API call failed'' e \<rparr>)) in
      case data of
        PDict dd \<Rightarrow>
          (case api_call E session_token config_token api_base http ''POST'' ''conferences''
                  yandex_token
                  (PDict [(''type'', dict_get dd ''type'' (PStr ''conference'')),
                          (''name'', dict_get dd ''name'' PNone),
                          (''cohosts'', dict_get dd ''cohosts'' (PList []))]) of
             Inl e \<Rightarrow> failed e
           | Inr result \<Rightarrow>
              (case py_in ''error'' result of
                 Inl e \<Rightarrow> failed e
               | Inr has_error \<Rightarrow>
                  if \<not> has_error then
                    (case result of
                       PDict rd \<Rightarrow>
                         (let conference_data = remote_conference_data E u dd rd d in
                          case save_conference (numeric_text E) (clock E 0) d conference_data of
                            Inl e \<Rightarrow> (d, jsonify result)
                          | Inr saved \<Rightarrow> (fst saved, jsonify (PDict conference_data)))
                     | _ \<Rightarrow> failed AttributeError)
                  else (d, \<lparr> resp_status = 400, resp_body = Json result \<rparr>)))
      | _ \<Rightarrow> failed AttributeError)"

definition app_create_conference ::
  "env \<Rightarrow> params \<Rightarrow> pyval \<Rightarrow> string option \<Rightarrow> string option \<Rightarrow> string \<Rightarrow> http_outcome \<Rightarrow>
   db \<Rightarrow> exn + (db \<times> response)" where
  "app_create_conference E ps data session_token config_token api_base http d =
     (let user_info = get_user_from_request ps;
          yandex_token = resolve_token session_token config_token
      in if token_truthy yandex_token
         then Inr (create_with_token E user_info yandex_token session_token config_token
                     api_base http data d)
         else create_without_token E user_info data d)"

text \<open>
  The two views below are defined inside \<^verbatim>\<open>create_app\<close> under the names
  \<^verbatim>\<open>update_conference\<close> and \<^verbatim>\<open>delete_conference\<close>. A \<^verbatim>\<open>def\<close> statement binds its name
  in the enclosing function, and \<^verbatim>\<open>app.route\<close> returns the function it decorates; so
  inside \<^verbatim>\<open>create_app\<close>, and inside the views nested in it, these two names denote the
  views and not the functions imported from \<^verbatim>\<open>database.py\<close> at module level.

  The call \<^verbatim>\<open>update_conference(conf_id, data)\<close> on line 591 therefore passes two
  arguments to the view, which has the single parameter \<^verbatim>\<open>conf_id\<close>: Python raises
  \<^verbatim>\<open>TypeError\<close> before any body runs.
\<close>

definition call_update_conference :: "int \<Rightarrow> pyval \<Rightarrow> exn + bool" where
  "call_update_conference conf_id data = Inl TypeError"

definition app_update_conference ::
  "env \<Rightarrow> int \<Rightarrow> pyval \<Rightarrow> string option \<Rightarrow> string option \<Rightarrow> string \<Rightarrow> http_outcome \<Rightarrow>
   db \<Rightarrow> db \<times> response" where
  "app_update_conference E conf_id data session_token config_token api_base http d =
     (let yandex_token = resolve_token session_token config_token;
          discarded = (if token_truthy yandex_token
                       then Some (api_call E session_token config_token api_base http ''PUT''
                                    (''conferences/'' @ str_int conf_id) yandex_token data)
                       else None)
      in case call_update_conference conf_id data of
           Inl e \<Rightarrow>
             (d, \<lparr> resp_status = 500, resp_body = ErrorMsg ''Failed to update conference'' e \<rparr>)
         | Inr success \<Rightarrow>
             if success then (d, jsonify (get_conference_by_id d conf_id))
             else (d, \<lparr> resp_status = 404,
                        resp_body = Json (PDict [(''error'', PStr ''Conference not found'')]) \<rparr>))"

text \<open>
  The call \<^verbatim>\<open>delete_conference(conf_id)\<close> on line 556 calls the view again, with the
  same argument, and so on until the interpreter's recursion limit. \<open>app_delete_conference
  k n\<close> is a call of the view when \<open>n\<close> more frames fit on the stack, where \<^verbatim>\<open>jsonify\<close>
  needs \<open>k\<close> frames of its own: with no frame left the call raises
  \<^verbatim>\<open>RecursionError\<close>; a view whose inner call raised answers 500 from its \<^verbatim>\<open>except\<close>
  branch; a view whose inner call returned reads the returned response as
  \<^verbatim>\<open>success\<close>, and a response object is true. The table is not touched.
\<close>

definition response_truthy :: "response \<Rightarrow> bool" where
  "response_truthy r = True"

fun app_delete_conference :: "nat \<Rightarrow> nat \<Rightarrow> int \<Rightarrow> db \<Rightarrow> exn + (db \<times> response)" where
  "app_delete_conference k 0 conf_id d = Inl RecursionError"
| "app_delete_conference k (Suc n) conf_id d =
     (if k \<le> n then
        (case app_delete_conference k n conf_id d of
           Inl e \<Rightarrow>
             Inr (d, \<lparr> resp_status = 500, resp_body = ErrorMsg ''Failed to delete conference'' e \<rparr>)
         | Inr inner \<Rightarrow>
             if response_truthy (snd inner)
             then Inr (fst inner,
                       jsonify (PDict [(''success'', PBool True),
                                       (''message'', PStr ''Conference deleted successfully'')]))
             else Inr (fst inner,
                       \<lparr> resp_status = 404,
                         resp_body = Json (PDict [(''error'', PStr ''Conference not found'')]) \<rparr>))
      else Inl RecursionError)"

section \<open>The alias table of the specification\<close>

text \<open>
  The specification asks for an ordered list of accepted spellings per field, tried in a
  fixed order, the first present one winning. \<open>first_present\<close> is that rule, and
  \<open>list_alias_table\<close> the table against which the chains of \<^verbatim>\<open>get\<close> calls of the
  list handler are compared below.
\<close>

fun first_present :: "pydict \<Rightarrow> string list \<Rightarrow> pyval \<Rightarrow> pyval" where
  "first_present conf [] dflt = dflt"
| "first_present conf (k # ks) dflt =
     (case map_of conf k of Some v \<Rightarrow> v | None \<Rightarrow> first_present conf ks dflt)"

definition list_alias_table :: "(string \<times> string list \<times> pyval) list" where
  "list_alias_table =
     [(''id'', [''id'', ''ID''], PNone),
      (''name'', [''name''], PNone),
      (''type'', [''type''], PStr ''conference''),
      (''description'', [''description''], PStr []),
      (''startDate'', [''start_date'', ''startDate''], PStr []),
      (''startTime'', [''start_time'', ''startTime''], PStr []),
      (''cohosts'', [''cohosts'', ''participants''], PList []),
      (''createCalendarEvent'', [''create_calendar_event'', ''createCalendarEvent''], PBool False),
      (''inviteUsers'', [''invite_users'', ''inviteUsers''], PBool False),
      (''liveStreamTitle'', [''live_stream_title'', ''liveStreamTitle''], PStr []),
      (''liveStreamDescription'', [''live_stream_description'', ''liveStreamDescription''], PStr []),
      (''status'', [''status''], PStr ''scheduled''),
      (''link'', [''link'', ''LINK''], PStr []),
      (''createdAt'', [''created_at'', ''createdAt''], PNone)]"

definition normalize_by_table :: "pydict \<Rightarrow> pydict" where
  "normalize_by_table conf =
     map (\<lambda>(field, aliases, dflt). (field, first_present conf aliases dflt)) list_alias_table"

text \<open>A dictionary without the two entries the handler stamps on every record.\<close>

definition without_owner :: "pydict \<Rightarrow> pydict" where
  "without_owner cd = filter (\<lambda>kv. fst kv \<noteq> ''ownerId'' \<and> fst kv \<noteq> ''ownerName'') cd"

section \<open>Conference records of the data model\<close>

text \<open>
  The specification types a conference record: \<^verbatim>\<open>name\<close>, \<^verbatim>\<open>type\<close> and \<^verbatim>\<open>ownerId\<close> are
  texts that must be there, the optional fields are texts, the two flags are booleans.
  \<open>valid_conference\<close> says so of a dictionary, each field read with the default
  \<^verbatim>\<open>save_conference\<close> gives it; for the two date fields it also asks that the storage
  engine keeps the text as a text. \<open>expected_read\<close> is the dictionary a read of the stored
  record is then expected to give: the assigned id, the fields as inserted, and the time
  of the insert as \<^verbatim>\<open>createdAt\<close>.
\<close>

fun is_text :: "pyval \<Rightarrow> bool" where
  "is_text (PStr s) = True"
| "is_text v = False"

fun is_flag :: "pyval \<Rightarrow> bool" where
  "is_flag (PBool b) = True"
| "is_flag v = False"

fun kept_text :: "(string \<Rightarrow> sqlval) \<Rightarrow> pyval \<Rightarrow> bool" where
  "kept_text aff (PStr s) = (aff s = SText s)"
| "kept_text aff v = False"

definition valid_conference :: "(string \<Rightarrow> sqlval) \<Rightarrow> pydict \<Rightarrow> bool" where
  "valid_conference aff cd =
     (is_text (dict_get cd ''name'' PNone)
      \<and> is_text (dict_get cd ''type'' PNone)
      \<and> is_text (dict_get cd ''description'' (PStr []))
      \<and> kept_text aff (dict_get cd ''startDate'' (PStr []))
      \<and> kept_text aff (dict_get cd ''startTime'' (PStr []))
      \<and> is_flag (dict_get cd ''createCalendarEvent'' (PBool False))
      \<and> is_flag (dict_get cd ''inviteUsers'' (PBool False))
      \<and> is_text (dict_get cd ''liveStreamTitle'' (PStr []))
      \<and> is_text (dict_get cd ''liveStreamDescription'' (PStr []))
      \<and> is_text (dict_get cd ''ownerId'' PNone)
      \<and> is_text (dict_get cd ''ownerName'' (PStr ''Unknown''))
      \<and> is_text (dict_get cd ''link'' (PStr []))
      \<and> is_text (dict_get cd ''status'' (PStr ''scheduled'')))"

definition expected_read :: "int \<Rightarrow> string \<Rightarrow> pydict \<Rightarrow> pyval" where
  "expected_read cid now cd = PDict
     [(''id'', PInt cid),
      (''name'', dict_get cd ''name'' PNone),
      (''type'', dict_get cd ''type'' PNone),
      (''description'', dict_get cd ''description'' (PStr [])),
      (''startDate'', dict_get cd ''startDate'' (PStr [])),
      (''startTime'', dict_get cd ''startTime'' (PStr [])),
      (''cohosts'', dict_get cd ''cohosts'' (PList [])),
      (''createCalendarEvent'', dict_get cd ''createCalendarEvent'' (PBool False)),
      (''inviteUsers'', dict_get cd ''inviteUsers'' (PBool False)),
      (''liveStreamTitle'', dict_get cd ''liveStreamTitle'' (PStr [])),
      (''liveStreamDescription'', dict_get cd ''liveStreamDescription'' (PStr [])),
      (''ownerId'', dict_get cd ''ownerId'' PNone),
      (''ownerName'', dict_get cd ''ownerName'' (PStr ''Unknown'')),
      (''link'', dict_get cd ''link'' (PStr [])),
      (''status'', dict_get cd ''status'' (PStr ''scheduled'')),
      (''createdAt'', PStr now)]"

section \<open>Requests the client is written for\<close>




section \<open>Sample data\<close>

text \<open>A small table and environment on which the results below are evaluated.\<close>

definition demo_env :: env where
  "demo_env = \<lparr> numeric_text = SText,
                clock = (\<lambda>n. ''2024-05-03 08:00:00''),
                now_iso = ''2024-05-03T08:00:00'',
                container_str = (\<lambda>v. ''[]'') \<rparr>"

definition demo_row :: "int \<Rightarrow> string \<Rightarrow> string \<Rightarrow> string \<Rightarrow> conf_row" where
  "demo_row i owner link created =
     \<lparr> r_id = i, r_name = SText ''standup'', r_type = SText ''conference'',
       r_description = SText [], r_start_date = SText [], r_start_time = SText [],
       r_cohosts = JsonText (PList []), r_create_calendar_event = SInt 0,
       r_invite_users = SInt 0, r_live_stream_title = SText [],
       r_live_stream_description = SText [], r_owner_id = SText owner,
       r_owner_name = SText owner, r_link = SText link, r_status = SText ''scheduled'',
       r_created_at = created, r_updated_at = created \<rparr>"

definition alice_row :: conf_row where
  "alice_row = demo_row 1 ''alice'' ''https://telemost.yandex.ru/j/1'' ''2024-05-01 10:00:00''"

definition bob_row :: conf_row where
  "bob_row = demo_row 2 ''bob'' ''https://telemost.yandex.ru/j/77'' ''2024-05-02 09:30:00''"

definition synced_row :: conf_row where
  "synced_row =
     (demo_row 3 ''alice'' ''https://telemost.yandex.ru/j/5'' ''2024-05-03 08:00:00'')
       \<lparr> r_name := SText ''weekly'' \<rparr>"

definition synced_db :: db where
  "synced_db = \<lparr> rows = [alice_row, bob_row, synced_row], seq = 3 \<rparr>"

definition alice_params :: params where
  "alice_params = [(''user_id'', ''alice''), (''user_name'', ''alice'')]"

definition remote_list :: http_outcome where
  "remote_list =
     Answered \<lparr> status_code = 200, reason = ''OK'',
                content = JsonBody (PList
                  [PDict [(''ID'', PInt 5), (''name'', PStr ''weekly''),
                          (''LINK'', PStr ''https://telemost.yandex.ru/j/5'')]]) \<rparr>"

definition empty_db :: db where
  "empty_db = \<lparr> rows = [], seq = 0 \<rparr>"

definition demo_db :: db where
  "demo_db =
     \<lparr> rows = [demo_row 1 ''alice'' ''https://telemost.yandex.ru/j/1'' ''2024-05-01 10:00:00'',
               demo_row 2 ''bob'' ''https://telemost.yandex.ru/j/77'' ''2024-05-02 09:30:00''],
       seq = 2 \<rparr>"

definition sample_conference :: pydict where
  "sample_conference =
     [(''id'', PInt 5),
      (''name'', PStr ''review''),
      (''type'', PStr ''broadcast''),
      (''description'', PStr ''quarterly review''),
      (''startDate'', PStr ''2024-06-01''),
      (''startTime'', PStr ''14:30''),
      (''cohosts'', PList [PStr ''carol@example.org'']),
      (''createCalendarEvent'', PBool True),
      (''inviteUsers'', PBool False),
      (''liveStreamTitle'', PStr ''Review''),
      (''liveStreamDescription'', PStr []),
      (''ownerId'', PStr ''alice''),
      (''ownerName'', PStr ''Alice A.''),
      (''link'', PStr ''https://telemost.yandex.ru/j/500''),
      (''status'', PStr ''scheduled'')]"

section \<open>Results\<close>

lemma str_nat_nonempty: "str_nat n \<noteq> []"
  by (induction n rule: str_nat.induct) (subst str_nat.simps, simp)

subsection \<open>Listing\<close>

lemma set_insert_desc: "set (insert_desc r xs) = insert r (set xs)"
  by (induction xs) auto

lemma set_order_by_created_desc: "set (order_by_created_desc rs) = set rs"
  unfolding order_by_created_desc_def by (induction rs) (auto simp: set_insert_desc)

lemma owner_of_row_dict: "py_get (row_dict r) ''ownerId'' PNone = Inr (from_sql (r_owner_id r))"
  by (simp add: row_dict_def py_get_def dict_get_def)

lemma listed_owner:
  "c \<in> set (get_user_conferences d u) \<Longrightarrow> py_get c ''ownerId'' PNone = Inr (PStr u)"
  by (auto simp: get_user_conferences_def set_order_by_created_desc owner_of_row_dict from_sql_def)

lemma list_after_client_local:
  "snd (list_after_client E u client d) =
     jsonify (PList (get_user_conferences (fst (list_after_client E u client d)) (user_id u)))"
  by (simp add: list_after_client_def Let_def split: sum.splits pyval.splits option.splits)

lemma app_get_conferences_local:
  "snd (app_get_conferences E ps st ct http d) =
     jsonify (PList (get_user_conferences (fst (app_get_conferences E ps st ct http d))
                (user_id (get_user_from_request ps))))"
  by (simp add: app_get_conferences_def Let_def list_after_client_local)

lemma dict_item_Inr: "dict_item d k = Inr v \<Longrightarrow> dict_get d k x = v"
  by (auto simp: dict_item_def dict_get_def split: option.splits)

lemma save_conference_Inr:
  assumes "save_conference aff now d cd = Inr saved"
  shows "\<exists>r. rows (fst saved) = rows d @ [r] \<and> seq (fst saved) = next_id d
           \<and> snd saved = str_int (next_id d)
           \<and> r_id r = next_id d
           \<and> r_owner_id r = text_affinity (to_sql (dict_get cd ''ownerId'' PNone))
           \<and> r_link r = text_affinity (to_sql (dict_get cd ''link'' (PStr [])))
           \<and> r_status r = text_affinity (to_sql (dict_get cd ''status'' (PStr ''scheduled'')))
           \<and> r_created_at r = now
           \<and> constraints_ok (rows d) r"
proof -
  from assms obtain name type ownerId where
    k: "dict_item cd ''name'' = Inr name" "dict_item cd ''type'' = Inr type"
       "dict_item cd ''ownerId'' = Inr ownerId"
    unfolding save_conference_def Let_def by (auto split: sum.splits)
  have o: "dict_get cd ''ownerId'' PNone = ownerId" using k(3) by (rule dict_item_Inr)
  from assms k show ?thesis
    unfolding save_conference_def Let_def o
    by (auto split: option.splits if_splits)
qed

lemma owner_of_conf_data:
  "text_affinity (to_sql (dict_get (conf_data_of u c) ''ownerId'' PNone)) = SText (user_id u)"
  by (simp add: conf_data_of_def dict_get_def to_sql_def text_affinity_def)

lemma sync_loop_frame:
  "\<exists>new. rows (fst (sync_loop E u i confs d)) = rows d @ new
         \<and> (\<forall>x \<in> set new. r_owner_id x = SText (user_id u))"
proof (induction confs arbitrary: d i)
  case Nil
  show ?case by simp
next
  case (Cons conf confs)
  show ?case
  proof (cases conf)
    case (PDict c)
    show ?thesis
    proof (cases "save_conference (numeric_text E) (clock E i) d (conf_data_of u c)")
      case (Inl e)
      with PDict Cons.IH [of "Suc i" d] show ?thesis by simp
    next
      case (Inr saved)
      from save_conference_Inr [OF Inr] obtain r where
        r: "rows (fst saved) = rows d @ [r]" "r_owner_id r = SText (user_id u)"
        by (auto simp: owner_of_conf_data)
      from Cons.IH [of "Suc i" "fst saved"] obtain new where
        n: "rows (fst (sync_loop E u (Suc i) confs (fst saved))) = rows (fst saved) @ new"
           "\<forall>x \<in> set new. r_owner_id x = SText (user_id u)"
        by blast
      have "rows (fst (sync_loop E u i (conf # confs) d)) = rows d @ (r # new)"
        using PDict Inr r n by simp
      moreover have "\<forall>x \<in> set (r # new). r_owner_id x = SText (user_id u)"
        using r n by simp
      ultimately show ?thesis by blast
    qed
  qed simp_all
qed

lemma list_after_client_frame:
  "\<exists>new. rows (fst (list_after_client E u client d)) = rows d @ new
         \<and> (\<forall>x \<in> set new. r_owner_id x = SText (user_id u))"
proof -
  have keep: "\<exists>new. rows d = rows d @ new \<and> (\<forall>x \<in> set new. r_owner_id x = SText (user_id u))"
    by simp
  show ?thesis
    using keep sync_loop_frame [of E u 0 _ d]
    by (simp add: list_after_client_def Let_def split: sum.splits pyval.splits option.splits)
qed

lemma app_get_conferences_frame:
  "\<exists>new. rows (fst (app_get_conferences E ps st ct http d)) = rows d @ new
         \<and> (\<forall>x \<in> set new. r_owner_id x = SText (user_id (get_user_from_request ps)))"
  using list_after_client_frame [of E "get_user_from_request ps" "api_get_conferences http" d]
  by (simp add: app_get_conferences_def Let_def)

lemma app_get_conferences_no_token:
  "\<not> token_truthy (resolve_token st ct) \<Longrightarrow> fst (app_get_conferences E ps st ct http d) = d"
  by (simp add: app_get_conferences_def Let_def)

lemma request_user_id:
  "user_id (get_user_from_request ps) =
     (case map_of ps ''user_id'' of None \<Rightarrow> ''unknown'' | Some v \<Rightarrow> v)"
  by (simp add: get_user_from_request_def param_get_def)

lemma others_untouched:
  assumes "rows d' = rows d @ new" "\<forall>x \<in> set new. r_owner_id x = SText u" "u' \<noteq> u"
  shows "get_user_conferences d' u' = get_user_conferences d u'"
proof -
  have "filter (\<lambda>r. r_owner_id r = SText u') new = []"
    using assms(2,3) by (auto simp: filter_empty_conv)
  then show ?thesis using assms(1) by (simp add: get_user_conferences_def)
qed

text \<open>
  Claim C1 (owner isolation). Every record \<^verbatim>\<open>get_user_conferences\<close> returns for an owner
  carries that owner's id, so for two different owners the list of the first holds no
  record of the second. For \<^verbatim>\<open>GET /api/conferences\<close>, let \<open>U\<close> be the request's
  \<^verbatim>\<open>user_id\<close> parameter (\<^verbatim>\<open>unknown\<close> when there is none), \<open>d\<close> the table the request
  finds and \<open>d'\<close> the table it leaves. Whatever the tokens and the remote answer are (no
  token, remote error or exception, remote success with its synchronisation): the answer
  is 200 with \<^verbatim>\<open>get_user_conferences\<close> of \<open>U\<close> on \<open>d'\<close>; \<open>d'\<close> is \<open>d\<close> with rows appended
  that are all owned by \<open>U\<close>, and is \<open>d\<close> itself without a token; so the list of every
  other owner is what it was, and no record in the answer carries another owner's id.
\<close>

theorem owner_isolation:
  assumes "U = (case map_of ps ''user_id'' of None \<Rightarrow> ''unknown'' | Some v \<Rightarrow> v)"
      and "app_get_conferences E ps st ct http d = (d', resp)"
  shows "(\<forall>c \<in> set (get_user_conferences t u1). py_get c ''ownerId'' PNone = Inr (PStr u1))
       \<and> (u1 \<noteq> u2 \<longrightarrow>
            (\<forall>c \<in> set (get_user_conferences t u1). py_get c ''ownerId'' PNone \<noteq> Inr (PStr u2)))
       \<and> resp = jsonify (PList (get_user_conferences d' U))
       \<and> (\<exists>new. rows d' = rows d @ new \<and> (\<forall>x \<in> set new. r_owner_id x = SText U))
       \<and> (\<not> token_truthy (resolve_token st ct) \<longrightarrow> d' = d)
       \<and> (\<forall>u'. u' \<noteq> U \<longrightarrow> get_user_conferences d' u' = get_user_conferences d u')
       \<and> (\<forall>c \<in> set (get_user_conferences d' U). \<forall>u'. u' \<noteq> U \<longrightarrow>
             py_get c ''ownerId'' PNone \<noteq> Inr (PStr u'))"
proof -
  have U: "user_id (get_user_from_request ps) = U"
    using assms(1) by (simp add: request_user_id)
  have d': "fst (app_get_conferences E ps st ct http d) = d'"
   and resp: "snd (app_get_conferences E ps st ct http d) = resp"
    using assms(2) by simp_all
  have c1: "\<forall>c \<in> set (get_user_conferences t u1). py_get c ''ownerId'' PNone = Inr (PStr u1)"
    using listed_owner by blast
  have c2: "u1 \<noteq> u2 \<longrightarrow>
        (\<forall>c \<in> set (get_user_conferences t u1). py_get c ''ownerId'' PNone \<noteq> Inr (PStr u2))"
    using listed_owner by fastforce
  have c3: "resp = jsonify (PList (get_user_conferences d' U))"
    using app_get_conferences_local [of E ps st ct http d] U d' resp by simp
  obtain new where new: "rows d' = rows d @ new" "\<forall>x \<in> set new. r_owner_id x = SText U"
    using app_get_conferences_frame [of E ps st ct http d] U d' by auto
  have c4: "\<exists>new. rows d' = rows d @ new \<and> (\<forall>x \<in> set new. r_owner_id x = SText U)"
    using new by blast
  have c5: "\<not> token_truthy (resolve_token st ct) \<longrightarrow> d' = d"
    using app_get_conferences_no_token [of st ct E ps http d] d' by auto
  have c6: "\<forall>u'. u' \<noteq> U \<longrightarrow> get_user_conferences d' u' = get_user_conferences d u'"
    using others_untouched [OF new] by blast
  have c7: "\<forall>c \<in> set (get_user_conferences d' U). \<forall>u'. u' \<noteq> U \<longrightarrow>
             py_get c ''ownerId'' PNone \<noteq> Inr (PStr u')"
    using listed_owner by fastforce
  from c1 c2 c3 c4 c5 c6 c7 show ?thesis by blast
qed

theorem owner_isolation_witness:
  "app_get_conferences demo_env alice_params (Some ''tok'') None remote_list demo_db =
     (synced_db, jsonify (PList [row_dict synced_row, row_dict alice_row]))
   \<and> get_user_conferences synced_db ''bob'' = get_user_conferences demo_db ''bob''
   \<and> get_user_conferences demo_db ''bob'' = [row_dict bob_row]
   \<and> py_get (row_dict alice_row) ''ownerId'' PNone \<noteq> Inr (PStr ''bob'')"
proof -
  have U: "''alice'' = (case map_of alice_params ''user_id'' of None \<Rightarrow> ''unknown'' | Some v \<Rightarrow> v)"
    by (simp add: alice_params_def)
  have run: "app_get_conferences demo_env alice_params (Some ''tok'') None remote_list demo_db =
     (synced_db, jsonify (PList [row_dict synced_row, row_dict alice_row]))"
    by (simp add: app_get_conferences_def list_after_client_def Let_def get_user_from_request_def
        param_get_def resolve_token_def token_truthy_def api_get_conferences_def py_in_def
        save_conference_def conf_data_of_def dict_get_def dict_item_def bind_error_def
        to_sql_def text_affinity_def numeric_affinity_def demo_env_def demo_db_def demo_row_def
        next_id_def constraints_ok_def type_check_def link_taken_def json_dumps_def
        get_user_conferences_def order_by_created_desc_def jsonify_def str_int_def
        str_nat.simps digit_char_def alice_params_def remote_list_def synced_db_def
        synced_row_def alice_row_def bob_row_def)
  have bob: "get_user_conferences demo_db ''bob'' = [row_dict bob_row]"
    by (simp add: get_user_conferences_def demo_db_def demo_row_def order_by_created_desc_def
        bob_row_def alice_row_def)
  have mem: "row_dict alice_row \<in> set (get_user_conferences demo_db ''alice'')"
    by (simp add: get_user_conferences_def demo_db_def demo_row_def order_by_created_desc_def
        bob_row_def alice_row_def)
  have ne: "''bob'' \<noteq> ''alice''" by simp
  note th = owner_isolation [OF U run, of demo_db "''alice''" "''bob''"]
  have c2: "''alice'' \<noteq> ''bob'' \<longrightarrow>
     (\<forall>c \<in> set (get_user_conferences demo_db ''alice''). py_get c ''ownerId'' PNone \<noteq> Inr (PStr ''bob''))"
    by (rule th [THEN conjunct2, THEN conjunct1])
  have c6: "\<forall>u'. u' \<noteq> ''alice'' \<longrightarrow>
      get_user_conferences synced_db u' = get_user_conferences demo_db u'"
    by (rule th [THEN conjunct2, THEN conjunct2, THEN conjunct2, THEN conjunct2, THEN conjunct2,
                 THEN conjunct1])
  from c6 have "''bob'' \<noteq> ''alice'' \<longrightarrow>
      get_user_conferences synced_db ''bob'' = get_user_conferences demo_db ''bob''"
    by (rule spec)
  then have same: "get_user_conferences synced_db ''bob'' = get_user_conferences demo_db ''bob''"
    using ne by (rule mp)
  have "''alice'' \<noteq> ''bob''" by simp
  with c2 have all: "\<forall>c \<in> set (get_user_conferences demo_db ''alice'').
      py_get c ''ownerId'' PNone \<noteq> Inr (PStr ''bob'')"
    by (rule mp)
  have other: "py_get (row_dict alice_row) ''ownerId'' PNone \<noteq> Inr (PStr ''bob'')"
    by (rule bspec [OF all mem])
  from bob other have "get_user_conferences demo_db ''bob'' = [row_dict bob_row]
      \<and> py_get (row_dict alice_row) ''ownerId'' PNone \<noteq> Inr (PStr ''bob'')"
    by (rule conjI)
  with same have "get_user_conferences synced_db ''bob'' = get_user_conferences demo_db ''bob''
      \<and> get_user_conferences demo_db ''bob'' = [row_dict bob_row]
      \<and> py_get (row_dict alice_row) ''ownerId'' PNone \<noteq> Inr (PStr ''bob'')"
    by (rule conjI)
  with run show ?thesis by (rule conjI)
qed

text \<open>
  Claim C2 (fallback of the list operation). When a token is there and the remote client
  returns an error value, that is a dictionary with the key \<^verbatim>\<open>error\<close>, the handler
  answers 200 with exactly \<^verbatim>\<open>get_user_conferences\<close> of the caller and leaves the table
  as it was: nothing remote is merged in and no error reaches the caller.
\<close>

theorem list_fallback_on_error:
  assumes "token_truthy (resolve_token st ct)"
      and "api_get_conferences http = Inr (PDict e)"
      and "map_of e ''error'' \<noteq> None"
  shows "app_get_conferences E ps st ct http d =
           (d, jsonify (PList (get_user_conferences d (user_id (get_user_from_request ps)))))"
  using assms by (simp add: app_get_conferences_def list_after_client_def Let_def py_in_def)

theorem list_fallback_on_error_witness:
  "token_truthy (resolve_token (Some ''tok'') None)
   \<and> api_get_conferences (NetworkFailure ''timed out'') =
        Inr (PDict [(''error'', PStr ''Request failed: timed out''), (''status_code'', PNone)])
   \<and> app_get_conferences demo_env [(''user_id'', ''alice'')] (Some ''tok'') None
        (NetworkFailure ''timed out'') demo_db =
        (demo_db, jsonify (PList (get_user_conferences demo_db ''alice'')))"
proof -
  have h1: "token_truthy (resolve_token (Some ''tok'') None)"
    by (simp add: token_truthy_def resolve_token_def)
  have h2: "api_get_conferences (NetworkFailure ''timed out'') =
        Inr (PDict [(''error'', PStr ''Request failed: timed out''), (''status_code'', PNone)])"
    by (simp add: api_get_conferences_def request_failed_def)
  have h3: "map_of [(''error'', PStr ''Request failed: timed out''), (''status_code'', PNone)]
              ''error'' \<noteq> None"
    by simp
  from list_fallback_on_error [OF h1 h2 h3, of demo_env "[(''user_id'', ''alice'')]" demo_db] h1 h2
  show ?thesis by (simp add: get_user_from_request_def param_get_def)
qed

subsection \<open>Creating without a token\<close>

lemma create_frame_local:
  assumes "create_without_token E u data d = Inr out"
  shows "\<exists>new. rows (fst out) = rows d @ new \<and> (\<forall>x \<in> set new. r_owner_id x = SText (user_id u))"
proof (cases data)
  case (PDict dd)
  show ?thesis
  proof (cases "save_conference (numeric_text E) (clock E 0) d (local_conference_data u dd d)")
    case (Inl e)
    with assms PDict have "fst out = d" by (auto simp: create_without_token_def Let_def)
    then show ?thesis by simp
  next
    case (Inr saved)
    have own: "text_affinity (to_sql (dict_get (local_conference_data u dd d) ''ownerId'' PNone))
                 = SText (user_id u)"
      by (simp add: local_conference_data_def dict_get_def to_sql_def text_affinity_def)
    from save_conference_Inr [OF Inr] own obtain r where
      r: "rows (fst saved) = rows d @ [r]" "r_owner_id r = SText (user_id u)" by auto
    have "fst out = fst saved"
      using assms PDict Inr
      by (auto simp: create_without_token_def Let_def split: sum.splits if_splits)
    with r have "rows (fst out) = rows d @ [r] \<and> (\<forall>x \<in> set [r]. r_owner_id x = SText (user_id u))"
      by simp
    then show ?thesis by blast
  qed
qed (use assms in \<open>simp_all add: create_without_token_def\<close>)

lemma create_frame_remote:
  "\<exists>new. rows (fst (create_with_token E u tok st ct base http data d)) = rows d @ new
        \<and> (\<forall>x \<in> set new. r_owner_id x = SText (user_id u))"
proof -
  have keep: "\<exists>new. rows d = rows d @ new \<and> (\<forall>x \<in> set new. r_owner_id x = SText (user_id u))"
    by simp
  have own: "\<And>dd rd. text_affinity (to_sql (dict_get (remote_conference_data E u dd rd d) ''ownerId'' PNone))
                 = SText (user_id u)"
    by (simp add: remote_conference_data_def Let_def dict_get_def to_sql_def text_affinity_def)
  have sv: "\<And>cd saved. save_conference (numeric_text E) (clock E 0) d cd = Inr saved \<Longrightarrow>
       text_affinity (to_sql (dict_get cd ''ownerId'' PNone)) = SText (user_id u) \<Longrightarrow>
       \<exists>new. rows (fst saved) = rows d @ new \<and> (\<forall>x \<in> set new. r_owner_id x = SText (user_id u))"
  proof -
    fix cd saved
    assume a: "save_conference (numeric_text E) (clock E 0) d cd = Inr saved"
       and b: "text_affinity (to_sql (dict_get cd ''ownerId'' PNone)) = SText (user_id u)"
    from save_conference_Inr [OF a] b obtain r where
      "rows (fst saved) = rows d @ [r]" "r_owner_id r = SText (user_id u)" by auto
    then have "rows (fst saved) = rows d @ [r] \<and> (\<forall>x \<in> set [r]. r_owner_id x = SText (user_id u))"
      by simp
    then show "\<exists>new. rows (fst saved) = rows d @ new \<and> (\<forall>x \<in> set new. r_owner_id x = SText (user_id u))"
      by blast
  qed
  show ?thesis
    using keep sv own
    by (simp add: create_with_token_def Let_def split: pyval.splits sum.splits)
qed

lemma app_create_conference_frame:
  assumes "app_create_conference E ps data st ct base http d = Inr out"
  shows "\<exists>new. rows (fst out) = rows d @ new
        \<and> (\<forall>x \<in> set new. r_owner_id x = SText (user_id (get_user_from_request ps)))"
proof (cases "token_truthy (resolve_token st ct)")
  case True
  with assms have "out = create_with_token E (get_user_from_request ps) (resolve_token st ct)
                           st ct base http data d"
    by (simp add: app_create_conference_def Let_def)
  then show ?thesis using create_frame_remote by simp
next
  case False
  with assms have "create_without_token E (get_user_from_request ps) data d = Inr out"
    by (simp add: app_create_conference_def Let_def)
  then show ?thesis by (rule create_frame_local)
qed

text \<open>
  Claim C3 (create with no token), evaluated on the code. The table holds conference 1 of
  alice and conference 2 of bob, and bob creates a conference with no token. The answer
  is 200 with status \<^verbatim>\<open>scheduled\<close> and owner bob, and the stored row gets the id 3; but
  the link is \<^verbatim>\<open>https://telemost.yandex.ru/j/2\<close>, built from the number of bob's
  conferences plus one (line 540), not from the assigned id.
\<close>

theorem create_without_token_link_from_count:
  "(case app_create_conference demo_env [(''user_id'', ''bob'')] (PDict [(''name'', PStr ''planning'')])
           None None ''https://telemost.yandex.ru/api/v1'' (NetworkFailure ''unused'') demo_db of
      Inl e \<Rightarrow> False
    | Inr out \<Rightarrow>
        resp_status (snd out) = 200
        \<and> map r_id (rows (fst out)) = [1, 2, 3]
        \<and> (case resp_body (snd out) of
              Json c \<Rightarrow> py_get c ''id'' PNone = Inr (PInt 3)
                       \<and> py_get c ''link'' PNone = Inr (PStr ''https://telemost.yandex.ru/j/2'')
                       \<and> py_get c ''status'' PNone = Inr (PStr ''scheduled'')
                       \<and> py_get c ''ownerId'' PNone = Inr (PStr ''bob'')
            | ErrorMsg p e \<Rightarrow> False))"
  by (simp add: app_create_conference_def create_without_token_def local_conference_data_def
        Let_def get_user_from_request_def
        param_get_def resolve_token_def token_truthy_def
        save_conference_def dict_get_def dict_item_def bind_error_def
        to_sql_def text_affinity_def numeric_affinity_def demo_env_def demo_db_def demo_row_def
        next_id_def constraints_ok_def type_check_def link_taken_def json_dumps_def
        get_user_conferences_def order_by_created_desc_def jsonify_def str_int_def
        str_nat.simps digit_char_def int_of_str_def digit_val_def py_get_def)

text \<open>
  Claim C4 (no-token creates of two callers), evaluated on the code. On an empty table
  alice creates a conference with no token: 200, and the row is stored with the link
  \<^verbatim>\<open>https://telemost.yandex.ru/j/1\<close>. Then bob, who owns no conference either, creates
  one with no token: the same link is computed for him, the \<^verbatim>\<open>UNIQUE\<close> constraint on
  \<^verbatim>\<open>link\<close> refuses the row, and the answer is 500 with the table unchanged. The second
  create does not succeed.
\<close>

theorem create_second_caller_conflict:
  "(case app_create_conference demo_env alice_params (PDict [(''name'', PStr ''retro'')])
           None None ''https://telemost.yandex.ru/api/v1'' (NetworkFailure ''unused'') empty_db of
      Inl e \<Rightarrow> False
    | Inr first \<Rightarrow>
        resp_status (snd first) = 200
        \<and> map r_link (rows (fst first)) = [SText ''https://telemost.yandex.ru/j/1'']
        \<and> app_create_conference demo_env [(''user_id'', ''bob'')] (PDict [(''name'', PStr ''planning'')])
             None None ''https://telemost.yandex.ru/api/v1'' (NetworkFailure ''unused'') (fst first)
           = Inr (fst first, \<lparr> resp_status = 500,
                     resp_body = ErrorMsg ''Failed to save conference'' IntegrityError \<rparr>))"
  by (simp add: app_create_conference_def create_without_token_def local_conference_data_def
        Let_def get_user_from_request_def
        param_get_def resolve_token_def token_truthy_def
        save_conference_def dict_get_def dict_item_def bind_error_def
        to_sql_def text_affinity_def numeric_affinity_def demo_env_def empty_db_def
        next_id_def constraints_ok_def type_check_def link_taken_def json_dumps_def
        get_user_conferences_def order_by_created_desc_def jsonify_def str_int_def
        str_nat.simps digit_char_def alice_params_def int_of_str_def digit_val_def)

subsection \<open>Updating and deleting\<close>

lemma db_delete_then_get:
  "get_conference_by_id (fst (db_delete_conference d conf_id)) conf_id = PNone
   \<and> snd (db_delete_conference (fst (db_delete_conference d conf_id)) conf_id) = False"
proof -
  have gone: "find (\<lambda>r. r_id r = conf_id) (filter (\<lambda>r. r_id r \<noteq> conf_id) (rows d)) = None"
    by (simp add: find_None_iff)
  then show ?thesis
    by (simp add: db_delete_conference_def get_conference_by_id_def)
qed

text \<open>
  Claim C5 (update operation), evaluated on the code. Whatever the id, the payload, the
  tokens, the remote answer and the table are, \<^verbatim>\<open>PUT /api/conferences/<id>\<close> answers 500
  with \<^verbatim>\<open>Failed to update conference\<close> and leaves the table as it was: the name
  \<^verbatim>\<open>update_conference\<close> on line 591 is the view itself, called with two arguments, and
  the update function of \<^verbatim>\<open>database.py\<close> is never called. So the answer is neither
  \<^verbatim>\<open>get_conference_by_id\<close> of an existing id nor 404 for a missing one.
\<close>

theorem update_view_answers_500:
  "app_update_conference E conf_id data st ct base http d =
     (d, \<lparr> resp_status = 500,
           resp_body = ErrorMsg ''Failed to update conference'' TypeError \<rparr>)"
  by (simp add: app_update_conference_def call_update_conference_def Let_def)

lemma del_low: "n \<le> k \<Longrightarrow> app_delete_conference k n c d = Inl RecursionError"
  by (cases n) auto

lemma del_mid:
  "app_delete_conference k (Suc k) c d =
     Inr (d, \<lparr> resp_status = 500,
               resp_body = ErrorMsg ''Failed to delete conference'' RecursionError \<rparr>)"
  by (simp add: del_low)

lemma del_high:
  "k + 2 \<le> n \<Longrightarrow>
   app_delete_conference k n c d =
     Inr (d, jsonify (PDict [(''success'', PBool True),
                             (''message'', PStr ''Conference deleted successfully'')]))"
proof (induction n)
  case 0
  then show ?case by simp
next
  case (Suc m)
  show ?case
  proof (cases "m = Suc k")
    case True
    then show ?thesis by (simp add: del_low response_truthy_def)
  next
    case False
    with Suc.prems have "k + 2 \<le> m" by simp
    from Suc.IH [OF this] Suc.prems show ?thesis by (simp add: response_truthy_def)
  qed
qed

lemma del_never_404:
  "(case app_delete_conference k n c d of
      Inl e \<Rightarrow> e = RecursionError
    | Inr out \<Rightarrow> fst out = d \<and> resp_status (snd out) \<noteq> 404)"
proof -
  consider "n \<le> k" | "n = Suc k" | "k + 2 \<le> n" by linarith
  then show ?thesis
  proof cases
    case 1
    then show ?thesis by (simp add: del_low)
  next
    case 2
    then show ?thesis by (simp add: del_low)
  next
    case 3
    then show ?thesis by (simp add: del_high jsonify_def)
  qed
qed

text \<open>
  Claim C6 (delete operation), evaluated on the code. The name \<^verbatim>\<open>delete_conference\<close> on
  line 556 is the view itself, so the delete function of \<^verbatim>\<open>database.py\<close> is never
  called. When the stack has room for at least two nested calls of the view beyond what
  \<^verbatim>\<open>jsonify\<close> needs, \<^verbatim>\<open>DELETE /api/conferences/<id>\<close> answers 200 with
  \<^verbatim>\<open>Conference deleted successfully\<close> for every id, stored or not, and the table is
  what it was. Whatever the stack is, the view never answers 404 and never changes the
  table.
\<close>

theorem delete_view_keeps_rows:
  "(k + 2 \<le> n \<longrightarrow>
      app_delete_conference k n conf_id d =
        Inr (d, jsonify (PDict [(''success'', PBool True),
                                (''message'', PStr ''Conference deleted successfully'')])))
   \<and> (case app_delete_conference k n conf_id d of
         Inl e \<Rightarrow> e = RecursionError
       | Inr out \<Rightarrow> fst out = d \<and> resp_status (snd out) \<noteq> 404)"
  using del_high [of k n conf_id d] del_never_404 [where k = k and n = n and c = conf_id and d = d]
  by simp

theorem delete_view_keeps_rows_witness:
  "(3::nat) + 2 \<le> 40
   \<and> app_delete_conference 3 40 1 demo_db =
        Inr (demo_db, jsonify (PDict [(''success'', PBool True),
                                      (''message'', PStr ''Conference deleted successfully'')]))
   \<and> get_conference_by_id demo_db 1 = row_dict alice_row
   \<and> app_delete_conference 3 40 999 demo_db =
        Inr (demo_db, jsonify (PDict [(''success'', PBool True),
                                      (''message'', PStr ''Conference deleted successfully'')]))
   \<and> get_conference_by_id demo_db 999 = PNone"
proof -
  have h: "(3::nat) + 2 \<le> 40" by simp
  have a: "app_delete_conference 3 40 1 demo_db =
        Inr (demo_db, jsonify (PDict [(''success'', PBool True),
                                      (''message'', PStr ''Conference deleted successfully'')]))"
    using delete_view_keeps_rows [of 3 40 1 demo_db] h by simp
  have b: "app_delete_conference 3 40 999 demo_db =
        Inr (demo_db, jsonify (PDict [(''success'', PBool True),
                                      (''message'', PStr ''Conference deleted successfully'')]))"
    using delete_view_keeps_rows [of 3 40 999 demo_db] h by simp
  have g1: "get_conference_by_id demo_db 1 = row_dict alice_row"
    by (simp add: get_conference_by_id_def demo_db_def alice_row_def demo_row_def)
  have g2: "get_conference_by_id demo_db 999 = PNone"
    by (simp add: get_conference_by_id_def demo_db_def demo_row_def)
  from h a g1 b g2 show ?thesis by simp
qed

subsection \<open>The default identity\<close>

text \<open>
  Claim C10 as stated fails: a request that sends \<^verbatim>\<open>user_name\<close> but no \<^verbatim>\<open>user_id\<close>
  gets the id \<^verbatim>\<open>unknown\<close> and keeps the name it sent.
\<close>

theorem default_identity_counterexample:
  "map_of [(''user_name'', ''Bob'')] ''user_id'' = None
   \<and> get_user_from_request [(''user_name'', ''Bob'')] \<noteq>
        \<lparr> user_id = ''unknown'', user_name = ''Unknown User'' \<rparr>"
  by (simp add: get_user_from_request_def param_get_def)

lemma list_without_token:
  "app_get_conferences E ps None None http d =
     (d, jsonify (PList (get_user_conferences d (user_id (get_user_from_request ps)))))"
  by (simp add: app_get_conferences_def Let_def resolve_token_def token_truthy_def)

text \<open>
  Claim C10, amended. For a request with no \<^verbatim>\<open>user_id\<close> parameter the caller's id is
  \<^verbatim>\<open>unknown\<close>, and the caller's name is \<^verbatim>\<open>Unknown User\<close> when \<^verbatim>\<open>user_name\<close> is missing
  too (a name that was sent is kept). Such a request lists \<^verbatim>\<open>get_user_conferences\<close> of
  \<^verbatim>\<open>unknown\<close>; every row its listing or its create adds to the table is owned by
  \<^verbatim>\<open>unknown\<close>; and two such requests that list the same table without a token get the
  same answer.
\<close>

theorem default_identity:
  assumes "map_of ps ''user_id'' = None"
  shows "user_id (get_user_from_request ps) = ''unknown''
       \<and> user_name (get_user_from_request ps) =
           (case map_of ps ''user_name'' of None \<Rightarrow> ''Unknown User'' | Some n \<Rightarrow> n)
       \<and> snd (app_get_conferences E ps st ct http d) =
           jsonify (PList (get_user_conferences (fst (app_get_conferences E ps st ct http d))
                      ''unknown''))
       \<and> (\<exists>new. rows (fst (app_get_conferences E ps st ct http d)) = rows d @ new
              \<and> (\<forall>x \<in> set new. r_owner_id x = SText ''unknown''))
       \<and> (\<forall>out. app_create_conference E ps data st ct base http d = Inr out \<longrightarrow>
              (\<exists>new. rows (fst out) = rows d @ new
                 \<and> (\<forall>x \<in> set new. r_owner_id x = SText ''unknown'')))
       \<and> (map_of ps' ''user_id'' = None \<longrightarrow>
              app_get_conferences E ps' None None http d = app_get_conferences E ps None None http d)"
proof -
  define U where "U = ''unknown''"
  have u: "user_id (get_user_from_request ps) = U"
    using assms by (simp add: request_user_id U_def)
  have n: "user_name (get_user_from_request ps) =
           (case map_of ps ''user_name'' of None \<Rightarrow> ''Unknown User'' | Some n \<Rightarrow> n)"
    by (simp add: get_user_from_request_def param_get_def)
  have l: "snd (app_get_conferences E ps st ct http d) =
           jsonify (PList (get_user_conferences (fst (app_get_conferences E ps st ct http d)) U))"
    using app_get_conferences_local [of E ps st ct http d] u by simp
  have f: "\<exists>new. rows (fst (app_get_conferences E ps st ct http d)) = rows d @ new
              \<and> (\<forall>x \<in> set new. r_owner_id x = SText U)"
    using app_get_conferences_frame [of E ps st ct http d] u by simp
  have c: "\<forall>out. app_create_conference E ps data st ct base http d = Inr out \<longrightarrow>
              (\<exists>new. rows (fst out) = rows d @ new \<and> (\<forall>x \<in> set new. r_owner_id x = SText U))"
    using app_create_conference_frame [of E ps data st ct base http d] u by auto
  have s: "map_of ps' ''user_id'' = None \<longrightarrow>
              app_get_conferences E ps' None None http d = app_get_conferences E ps None None http d"
    using assms by (simp add: list_without_token request_user_id)
  from u n l f c s show ?thesis unfolding U_def by (intro conjI)
qed

theorem default_identity_witness:
  "map_of [(''user_name'', ''Bob'')] ''user_id'' = None
   \<and> map_of ([] :: params) ''user_id'' = None
   \<and> user_id (get_user_from_request [(''user_name'', ''Bob'')]) = ''unknown''
   \<and> user_name (get_user_from_request [(''user_name'', ''Bob'')]) = ''Bob''
   \<and> app_get_conferences demo_env [] None None (NetworkFailure ''unused'') demo_db =
       app_get_conferences demo_env [(''user_name'', ''Bob'')] None None (NetworkFailure ''unused'')
         demo_db"
proof -
  have h: "map_of [(''user_name'', ''Bob'')] ''user_id'' = None" by simp
  have h': "map_of ([] :: params) ''user_id'' = None" by simp
  note th = default_identity [OF h, of demo_env None None "NetworkFailure ''unused''" demo_db
              PNone "[]" "[]"]
  have a: "user_id (get_user_from_request [(''user_name'', ''Bob'')]) = ''unknown''"
    by (rule th [THEN conjunct1])
  have "user_name (get_user_from_request [(''user_name'', ''Bob'')]) =
          (case map_of [(''user_name'', ''Bob'')] ''user_name'' of
             None \<Rightarrow> ''Unknown User'' | Some n \<Rightarrow> n)"
    by (rule th [THEN conjunct2, THEN conjunct1])
  then have b: "user_name (get_user_from_request [(''user_name'', ''Bob'')]) = ''Bob''" by simp
  have "map_of ([] :: params) ''user_id'' = None \<longrightarrow>
       app_get_conferences demo_env [] None None (NetworkFailure ''unused'') demo_db =
       app_get_conferences demo_env [(''user_name'', ''Bob'')] None None (NetworkFailure ''unused'')
         demo_db"
    by (rule th [THEN conjunct2, THEN conjunct2, THEN conjunct2, THEN conjunct2, THEN conjunct2])
  then have c: "app_get_conferences demo_env [] None None (NetworkFailure ''unused'') demo_db =
       app_get_conferences demo_env [(''user_name'', ''Bob'')] None None (NetworkFailure ''unused'')
         demo_db"
    using h' by (rule mp)
  from b c have "user_name (get_user_from_request [(''user_name'', ''Bob'')]) = ''Bob''
     \<and> app_get_conferences demo_env [] None None (NetworkFailure ''unused'') demo_db =
       app_get_conferences demo_env [(''user_name'', ''Bob'')] None None (NetworkFailure ''unused'')
         demo_db" by (rule conjI)
  with a have "user_id (get_user_from_request [(''user_name'', ''Bob'')]) = ''unknown''
     \<and> user_name (get_user_from_request [(''user_name'', ''Bob'')]) = ''Bob''
     \<and> app_get_conferences demo_env [] None None (NetworkFailure ''unused'') demo_db =
       app_get_conferences demo_env [(''user_name'', ''Bob'')] None None (NetworkFailure ''unused'')
         demo_db" by (rule conjI)
  with h' have "map_of ([] :: params) ''user_id'' = None
     \<and> user_id (get_user_from_request [(''user_name'', ''Bob'')]) = ''unknown''
     \<and> user_name (get_user_from_request [(''user_name'', ''Bob'')]) = ''Bob''
     \<and> app_get_conferences demo_env [] None None (NetworkFailure ''unused'') demo_db =
       app_get_conferences demo_env [(''user_name'', ''Bob'')] None None (NetworkFailure ''unused'')
         demo_db" by (rule conjI)
  with h show ?thesis by (rule conjI)
qed

subsection \<open>Field names\<close>

text \<open>
  Claim C8 as stated fails. In the list handler \<^verbatim>\<open>name\<close> is read under one key only: a
  record with the upper-case key \<^verbatim>\<open>NAME\<close> gets no name. And in the client's own
  normaliser for a created conference (\<^verbatim>\<open>api_call\<close>, lines 168 to 183) \<^verbatim>\<open>LINK\<close> is not
  probed: the records \<^verbatim>\<open>{ID: 5, LINK: "x"}\<close> and \<^verbatim>\<open>{id: 5, link: "x"}\<close> get different
  links.
\<close>

theorem field_probing_counterexample:
  "dict_get (conf_data_of \<lparr> user_id = ''alice'', user_name = ''alice'' \<rparr> [(''NAME'', PStr ''weekly'')])
     ''name'' PNone = PNone
   \<and> dict_get (conf_data_of \<lparr> user_id = ''alice'', user_name = ''alice'' \<rparr> [(''name'', PStr ''weekly'')])
     ''name'' PNone = PStr ''weekly''
   \<and> (case created_conf_data demo_env PNone [(''ID'', PInt 5), (''LINK'', PStr ''x'')] of
         Inl e \<Rightarrow> False
       | Inr c \<Rightarrow> py_get c ''link'' PNone = Inr (PStr ''https://telemost.yandex.ru/j/5''))
   \<and> (case created_conf_data demo_env PNone [(''id'', PInt 5), (''link'', PStr ''x'')] of
         Inl e \<Rightarrow> False
       | Inr c \<Rightarrow> py_get c ''link'' PNone = Inr (PStr ''x''))"
  by (simp add: conf_data_of_def dict_get_def created_conf_data_def Let_def py_get_def py_str_def
        str_int_def str_nat.simps digit_char_def)

lemma first_present_two:
  "first_present conf [a, b] dflt = dict_get conf a (dict_get conf b dflt)"
  by (simp add: dict_get_def split: option.splits)

lemma first_present_one: "first_present conf [a] dflt = dict_get conf a dflt"
  by (simp add: dict_get_def split: option.splits)

text \<open>
  Claim C8, amended. The list handler reads each remote record by the alias table
  \<open>list_alias_table\<close>, the first present spelling winning: two spellings for \<^verbatim>\<open>id\<close>
  (\<^verbatim>\<open>id\<close>, \<^verbatim>\<open>ID\<close>), \<^verbatim>\<open>link\<close> (\<^verbatim>\<open>link\<close>, \<^verbatim>\<open>LINK\<close>), the dates, the co-hosts
  (\<^verbatim>\<open>cohosts\<close>, \<^verbatim>\<open>participants\<close>), the two flags, the live-stream texts and
  \<^verbatim>\<open>createdAt\<close> (snake case, then camel case); one spelling for \<^verbatim>\<open>name\<close>, \<^verbatim>\<open>type\<close>,
  \<^verbatim>\<open>description\<close> and \<^verbatim>\<open>status\<close>. The owner is stamped from the caller. In particular
  \<^verbatim>\<open>{ID: 5, LINK: "x"}\<close> and \<^verbatim>\<open>{id: 5, link: "x"}\<close> normalise to the same dictionary
  there.
\<close>

theorem field_probing:
  "without_owner (conf_data_of u conf) = normalize_by_table conf
   \<and> dict_get (conf_data_of u conf) ''ownerId'' PNone = PStr (user_id u)
   \<and> dict_get (conf_data_of u conf) ''ownerName'' PNone = PStr (user_name u)
   \<and> conf_data_of u [(''ID'', PInt 5), (''LINK'', PStr ''x'')] =
       conf_data_of u [(''id'', PInt 5), (''link'', PStr ''x'')]"
proof -
  have a: "without_owner (conf_data_of u conf) = normalize_by_table conf"
    by (simp add: without_owner_def conf_data_of_def normalize_by_table_def list_alias_table_def
          first_present_two first_present_one del: first_present.simps)
  have b: "dict_get (conf_data_of u conf) ''ownerId'' PNone = PStr (user_id u)"
    by (simp add: conf_data_of_def dict_get_def)
  have c: "dict_get (conf_data_of u conf) ''ownerName'' PNone = PStr (user_name u)"
    by (simp add: conf_data_of_def dict_get_def)
  have d: "conf_data_of u [(''ID'', PInt 5), (''LINK'', PStr ''x'')] =
       conf_data_of u [(''id'', PInt 5), (''link'', PStr ''x'')]"
    by (simp add: conf_data_of_def dict_get_def)
  from a b c d show ?thesis by (intro conjI)
qed

subsection \<open>Insert and read\<close>

lemma digit_char_below_ten:
  assumes "d < 10"
  shows "digit_val (digit_char d) = Some d"
proof -
  from assms consider "d = 0" | "d = 1" | "d = 2" | "d = 3" | "d = 4" | "d = 5" | "d = 6"
    | "d = 7" | "d = 8" | "d = 9"
    by atomize_elim arith
  then show ?thesis
    by cases (simp_all add: digit_char_def digit_val_def)
qed

lemma digit_val_digit_char: "d < 10 \<Longrightarrow> digit_val (digit_char d) = Some d"
  by (rule digit_char_below_ten)

lemma digit_char_not_minus: "digit_char d \<noteq> CHR ''-''"
proof -
  have "d mod 10 < 10" by simp
  then consider "d mod 10 = 0" | "d mod 10 = 1" | "d mod 10 = 2" | "d mod 10 = 3"
    | "d mod 10 = 4" | "d mod 10 = 5" | "d mod 10 = 6" | "d mod 10 = 7" | "d mod 10 = 8"
    | "d mod 10 = 9"
    by atomize_elim arith
  then show ?thesis
    by cases (simp_all add: digit_char_def)
qed

lemma nat_of_digits_snoc:
  "nat_of_digits acc (xs @ [c]) =
     (case nat_of_digits acc xs of
        None \<Rightarrow> None
      | Some a \<Rightarrow> (case digit_val c of None \<Rightarrow> None | Some d \<Rightarrow> Some (10 * a + d)))"
  by (induction xs arbitrary: acc) (auto split: option.splits)

lemma nat_of_digits_str_nat: "nat_of_digits 0 (str_nat n) = Some n"
proof (induction n rule: str_nat.induct)
  case (1 n)
  show ?case
  proof (cases "n < 10")
    case True
    then show ?thesis by (subst str_nat.simps) (simp add: digit_val_digit_char)
  next
    case False
    have "n mod 10 < 10" by simp
    with False 1 show ?thesis
      by (subst str_nat.simps) (simp add: nat_of_digits_snoc digit_val_digit_char)
  qed
qed

lemma hd_str_nat_not_minus: "hd (str_nat n) \<noteq> CHR ''-''"
proof (induction n rule: str_nat.induct)
  case (1 n)
  show ?case
  proof (cases "n < 10")
    case True
    then show ?thesis by (subst str_nat.simps) (simp add: digit_char_not_minus)
  next
    case False
    with 1 show ?thesis
      by (subst str_nat.simps) (simp add: str_nat_nonempty)
  qed
qed

lemma int_of_str_str_int: "int_of_str (str_int i) = Inr i"
proof (cases "i < 0")
  case True
  then show ?thesis
    by (simp add: int_of_str_def str_int_def str_nat_nonempty nat_of_digits_str_nat)
next
  case False
  obtain c cs where s: "str_nat (nat i) = c # cs"
    using str_nat_nonempty [of "nat i"] by (cases "str_nat (nat i)") auto
  have "c \<noteq> CHR ''-''" using hd_str_nat_not_minus [of "nat i"] s by simp
  moreover have "nat_of_digits 0 (c # cs) = Some (nat i)"
    using nat_of_digits_str_nat [of "nat i"] s by simp
  ultimately show ?thesis using False s
    by (simp add: int_of_str_def str_int_def)
qed

lemma fold_max_ge: "(a::int) \<le> fold max xs a"
proof (induction xs arbitrary: a)
  case Nil
  show ?case by simp
next
  case (Cons x xs)
  have "a \<le> max x a" by simp
  also have "max x a \<le> fold max xs (max x a)" by (rule Cons.IH)
  finally show ?case by simp
qed

lemma fold_max_mem: "x \<in> set xs \<Longrightarrow> (x::int) \<le> fold max xs a"
proof (induction xs arbitrary: a)
  case Nil
  then show ?case by simp
next
  case (Cons y ys)
  show ?case
  proof (cases "x = y")
    case True
    have "x \<le> max y a" using True by simp
    also have "max y a \<le> fold max ys (max y a)" by (rule fold_max_ge)
    finally show ?thesis by simp
  next
    case False
    with Cons.prems have "x \<in> set ys" by simp
    from Cons.IH [OF this] show ?thesis by simp
  qed
qed

lemma ids_below_next_id: "r \<in> set (rows d) \<Longrightarrow> r_id r < next_id d"
proof -
  assume "r \<in> set (rows d)"
  then have "r_id r \<in> set (map r_id (rows d))" by simp
  from fold_max_mem [OF this] show ?thesis by (simp add: next_id_def)
qed

lemma find_appended:
  "(\<forall>x \<in> set xs. \<not> P x) \<Longrightarrow> P r \<Longrightarrow> find P (xs @ [r]) = Some r"
  by (induction xs) auto

lemma save_conference_fields:
  assumes "save_conference aff now d cd = Inr saved"
  shows "\<exists>r. rows (fst saved) = rows d @ [r] \<and> snd saved = str_int (next_id d)
           \<and> r_id r = next_id d
           \<and> r_name r = text_affinity (to_sql (dict_get cd ''name'' PNone))
           \<and> r_type r = text_affinity (to_sql (dict_get cd ''type'' PNone))
           \<and> r_description r = text_affinity (to_sql (dict_get cd ''description'' (PStr [])))
           \<and> r_start_date r = numeric_affinity aff (to_sql (dict_get cd ''startDate'' (PStr [])))
           \<and> r_start_time r = numeric_affinity aff (to_sql (dict_get cd ''startTime'' (PStr [])))
           \<and> r_cohosts r = json_dumps (dict_get cd ''cohosts'' (PList []))
           \<and> r_create_calendar_event r =
               numeric_affinity aff (to_sql (dict_get cd ''createCalendarEvent'' (PBool False)))
           \<and> r_invite_users r = numeric_affinity aff (to_sql (dict_get cd ''inviteUsers'' (PBool False)))
           \<and> r_live_stream_title r = text_affinity (to_sql (dict_get cd ''liveStreamTitle'' (PStr [])))
           \<and> r_live_stream_description r =
               text_affinity (to_sql (dict_get cd ''liveStreamDescription'' (PStr [])))
           \<and> r_owner_id r = text_affinity (to_sql (dict_get cd ''ownerId'' PNone))
           \<and> r_owner_name r = text_affinity (to_sql (dict_get cd ''ownerName'' (PStr ''Unknown'')))
           \<and> r_link r = text_affinity (to_sql (dict_get cd ''link'' (PStr [])))
           \<and> r_status r = text_affinity (to_sql (dict_get cd ''status'' (PStr ''scheduled'')))
           \<and> r_created_at r = now \<and> r_updated_at r = now"
proof -
  from assms obtain name type ownerId where
    k: "dict_item cd ''name'' = Inr name" "dict_item cd ''type'' = Inr type"
       "dict_item cd ''ownerId'' = Inr ownerId"
    unfolding save_conference_def Let_def by (auto split: sum.splits)
  have o: "dict_get cd ''ownerId'' PNone = ownerId" using k(3) by (rule dict_item_Inr)
  have n: "dict_get cd ''name'' PNone = name" using k(1) by (rule dict_item_Inr)
  have t: "dict_get cd ''type'' PNone = type" using k(2) by (rule dict_item_Inr)
  from assms k show ?thesis
    unfolding save_conference_def Let_def o n t
    by (auto split: option.splits if_splits)
qed

lemma text_read_back: "is_text v \<Longrightarrow> from_sql (text_affinity (to_sql v)) = v"
  by (cases v) (simp_all add: from_sql_def text_affinity_def to_sql_def)

lemma flag_read_back:
  "is_flag v \<Longrightarrow> PBool (truthy (from_sql (numeric_affinity aff (to_sql v)))) = v"
  by (cases v) (simp_all add: from_sql_def numeric_affinity_def to_sql_def)

lemma kept_read_back: "kept_text aff v \<Longrightarrow> from_sql (numeric_affinity aff (to_sql v)) = v"
  by (cases v) (simp_all add: from_sql_def numeric_affinity_def to_sql_def)

text \<open>
  Claim C7 as stated fails on the code. A record with all its fields, and the id 5 the
  remote service gave it, is inserted into the empty table. The insert returns the id 1;
  the record read back under that id carries the id 1, not the inserted 5, and has no
  \<^verbatim>\<open>updatedAt\<close> field at all (\<^verbatim>\<open>updated_at\<close> is stored but not selected).
\<close>

theorem insert_read_counterexample:
  "(case save_conference SText ''2024-05-03 08:00:00'' empty_db sample_conference of
      Inl e \<Rightarrow> False
    | Inr saved \<Rightarrow>
        snd saved = ''1''
        \<and> map r_updated_at (rows (fst saved)) = [''2024-05-03 08:00:00'']
        \<and> dict_get sample_conference ''id'' PNone = PInt 5
        \<and> (case get_conference_by_id (fst saved) 1 of
              PDict c \<Rightarrow> map_of c ''id'' = Some (PInt 1) \<and> map_of c ''updatedAt'' = None
                        \<and> map_of c ''createdAt'' = Some (PStr ''2024-05-03 08:00:00'')
            | _ \<Rightarrow> False))"
  by (simp add: save_conference_def sample_conference_def dict_get_def dict_item_def bind_error_def
        to_sql_def text_affinity_def numeric_affinity_def empty_db_def Let_def
        next_id_def constraints_ok_def type_check_def link_taken_def json_dumps_def
        str_int_def str_nat.simps digit_char_def get_conference_by_id_def row_dict_def)

text \<open>
  Claim C7, amended. For a record that is valid by the data model and whose insert
  succeeds, the id \<^verbatim>\<open>save_conference\<close> returns is the text of the id the table assigned,
  and \<^verbatim>\<open>get_conference_by_id\<close> of that id returns the fields \<^verbatim>\<open>name\<close>, \<^verbatim>\<open>type\<close>,
  \<^verbatim>\<open>description\<close>, \<^verbatim>\<open>startDate\<close>, \<^verbatim>\<open>startTime\<close>, \<^verbatim>\<open>cohosts\<close>,
  \<^verbatim>\<open>createCalendarEvent\<close>, \<^verbatim>\<open>inviteUsers\<close>, \<^verbatim>\<open>liveStreamTitle\<close>,
  \<^verbatim>\<open>liveStreamDescription\<close>, \<^verbatim>\<open>ownerId\<close>, \<^verbatim>\<open>ownerName\<close>, \<^verbatim>\<open>link\<close> and \<^verbatim>\<open>status\<close>
  equal to what was inserted (an omitted optional field reads as its default), together
  with the assigned id and \<^verbatim>\<open>createdAt\<close>, the time of the insert. An id in the inserted
  record is ignored, and \<^verbatim>\<open>updatedAt\<close> is not part of what is returned.
\<close>

theorem insert_read_roundtrip:
  assumes "valid_conference aff cd"
      and "save_conference aff now d cd = Inr saved"
  shows "int_of_str (snd saved) = Inr (next_id d)
       \<and> get_conference_by_id (fst saved) (next_id d) = expected_read (next_id d) now cd
       \<and> py_get (get_conference_by_id (fst saved) (next_id d)) ''updatedAt'' PNone = Inr PNone"
proof -
  from save_conference_fields [OF assms(2)] obtain r where
    rows: "rows (fst saved) = rows d @ [r]" and s: "snd saved = str_int (next_id d)"
    and rid: "r_id r = next_id d"
    and f: "r_name r = text_affinity (to_sql (dict_get cd ''name'' PNone))"
           "r_type r = text_affinity (to_sql (dict_get cd ''type'' PNone))"
           "r_description r = text_affinity (to_sql (dict_get cd ''description'' (PStr [])))"
           "r_start_date r = numeric_affinity aff (to_sql (dict_get cd ''startDate'' (PStr [])))"
           "r_start_time r = numeric_affinity aff (to_sql (dict_get cd ''startTime'' (PStr [])))"
           "r_cohosts r = json_dumps (dict_get cd ''cohosts'' (PList []))"
           "r_create_calendar_event r =
               numeric_affinity aff (to_sql (dict_get cd ''createCalendarEvent'' (PBool False)))"
           "r_invite_users r = numeric_affinity aff (to_sql (dict_get cd ''inviteUsers'' (PBool False)))"
           "r_live_stream_title r = text_affinity (to_sql (dict_get cd ''liveStreamTitle'' (PStr [])))"
           "r_live_stream_description r =
               text_affinity (to_sql (dict_get cd ''liveStreamDescription'' (PStr [])))"
           "r_owner_id r = text_affinity (to_sql (dict_get cd ''ownerId'' PNone))"
           "r_owner_name r = text_affinity (to_sql (dict_get cd ''ownerName'' (PStr ''Unknown'')))"
           "r_link r = text_affinity (to_sql (dict_get cd ''link'' (PStr [])))"
           "r_status r = text_affinity (to_sql (dict_get cd ''status'' (PStr ''scheduled'')))"
           "r_created_at r = now"
    by blast
  have a: "int_of_str (snd saved) = Inr (next_id d)"
    using s by (simp add: int_of_str_str_int)
  have "\<forall>x \<in> set (rows d). \<not> r_id x = next_id d"
    using ids_below_next_id by fastforce
  then have found: "find (\<lambda>x. r_id x = next_id d) (rows (fst saved)) = Some r"
    unfolding rows using rid by (rule find_appended)
  have rd: "row_dict r = expected_read (next_id d) now cd"
    using assms(1) unfolding valid_conference_def row_dict_def expected_read_def f rid
    by (simp add: text_read_back flag_read_back kept_read_back json_dumps_def)
  have b: "get_conference_by_id (fst saved) (next_id d) = expected_read (next_id d) now cd"
    using found rd by (simp add: get_conference_by_id_def)
  have c: "py_get (get_conference_by_id (fst saved) (next_id d)) ''updatedAt'' PNone = Inr PNone"
    unfolding b by (simp add: expected_read_def py_get_def dict_get_def)
  from a b c show ?thesis by (intro conjI)
qed

theorem insert_read_roundtrip_witness:
  "valid_conference SText sample_conference
   \<and> (case save_conference SText ''2024-05-03 08:00:00'' demo_db sample_conference of
         Inl e \<Rightarrow> False
       | Inr saved \<Rightarrow>
           int_of_str (snd saved) = Inr 3
           \<and> get_conference_by_id (fst saved) 3 =
               expected_read 3 ''2024-05-03 08:00:00'' sample_conference)"
proof -
  have v: "valid_conference SText sample_conference"
    by (simp add: valid_conference_def sample_conference_def dict_get_def)
  have n: "next_id demo_db = 3"
    by (simp add: next_id_def demo_db_def demo_row_def)
  have "\<exists>saved. save_conference SText ''2024-05-03 08:00:00'' demo_db sample_conference = Inr saved"
    by (simp add: save_conference_def sample_conference_def dict_get_def dict_item_def bind_error_def
        to_sql_def text_affinity_def numeric_affinity_def demo_db_def demo_row_def Let_def
        next_id_def constraints_ok_def type_check_def link_taken_def json_dumps_def)
  then obtain saved where
    sv: "save_conference SText ''2024-05-03 08:00:00'' demo_db sample_conference = Inr saved"
    by (rule exE)
  from insert_read_roundtrip [OF v sv] have
    "int_of_str (snd saved) = Inr 3
     \<and> get_conference_by_id (fst saved) 3 = expected_read 3 ''2024-05-03 08:00:00'' sample_conference"
    unfolding n by simp
  then have "(case save_conference SText ''2024-05-03 08:00:00'' demo_db sample_conference of
         Inl e \<Rightarrow> False
       | Inr saved \<Rightarrow>
           int_of_str (snd saved) = Inr 3
           \<and> get_conference_by_id (fst saved) 3 =
               expected_read 3 ''2024-05-03 08:00:00'' sample_conference)"
    unfolding sv by simp
  with v show ?thesis by (rule conjI)
qed

subsection \<open>The remote client\<close>













end
